theory Spec2Isabelle
  imports Main
begin

section \<open>JavaScript string operations\<close>

text \<open>
  Strings are modelled over ASCII: \<open>trim\<close> removes the ASCII white space and
  \<open>toLowerCase\<close> maps the letters A to Z.
\<close>

definition is_space :: "char \<Rightarrow> bool" where
  "is_space c = (c \<in> set [CHR '' '', CHR 0x09, CHR 0x0A, CHR 0x0B, CHR 0x0C, CHR 0x0D])"

definition trimStart :: "string \<Rightarrow> string" where
  "trimStart s = dropWhile is_space s"

definition trimEnd :: "string \<Rightarrow> string" where
  "trimEnd s = rev (dropWhile is_space (rev s))"

definition trim :: "string \<Rightarrow> string" where
  "trim s = trimEnd (trimStart s)"

definition lower_char :: "char \<Rightarrow> char" where
  "lower_char c =
     (case map_of (zip ''ABCDEFGHIJKLMNOPQRSTUVWXYZ'' ''abcdefghijklmnopqrstuvwxyz'') c of
        None \<Rightarrow> c
      | Some d \<Rightarrow> d)"

definition toLowerCase :: "string \<Rightarrow> string" where
  "toLowerCase s = map lower_char s"

fun startsWith :: "string \<Rightarrow> string \<Rightarrow> bool" where
  "startsWith s [] = True"
| "startsWith [] (c # cs) = False"
| "startsWith (x # xs) (c # cs) = (x = c \<and> startsWith xs cs)"

fun str_includes :: "string \<Rightarrow> string \<Rightarrow> bool" where
  "str_includes [] frag = (frag = [])"
| "str_includes (x # xs) frag = (startsWith (x # xs) frag \<or> str_includes xs frag)"

text \<open>\<^verbatim>\<open>s.indexOf(c)\<close> for a one-character needle: \<open>None\<close> is \<^verbatim>\<open>-1\<close>.\<close>

fun indexOf :: "string \<Rightarrow> char \<Rightarrow> nat option" where
  "indexOf [] c = None"
| "indexOf (x # xs) c = (if x = c then Some 0 else map_option Suc (indexOf xs c))"

section \<open>Values, session records and the session store\<close>

text \<open>
  A session store is the JavaScript object \<^verbatim>\<open>Record<string, SessionEntry>\<close> that
  \<^verbatim>\<open>config/sessions\<close> reads from and writes to one JSON file per store path.

  \<^item> \<open>json\<close> is a value as it stands in a JSON document (numbers are the integral
    millisecond timestamps and counters the session code stores).
  \<^item> \<open>jsval\<close> is the value of a property of an object in memory: a JSON value, or
    \<^verbatim>\<open>undefined\<close>. A property that is present with the value \<^verbatim>\<open>undefined\<close> is
    \<open>Some Undefined\<close>; an absent property is \<open>None\<close>. Object spread copies the first kind
    and \<^verbatim>\<open>JSON.stringify\<close> drops it.
  \<^item> \<open>entry\<close> is an object in memory given by its own enumerable properties.
  \<^item> \<open>slot\<close> is what a store holds under a session key: an object (\<open>Entry\<close>), or a
    value that is not a plain object (\<open>Prim\<close>: null, a boolean, a number, a string, an
    array), which a hand-edited file can contain. Index properties of strings and arrays
    are not modelled.
\<close>

datatype json =
    JNull
  | JBool bool
  | JNum int
  | JStr string
  | JArr "json list"
  | JObj "(string \<times> json) list"

datatype jsval = Undefined | Val json

type_synonym entry = "string \<Rightarrow> jsval option"

datatype slot = Entry entry | Prim json

type_synonym store = "string \<Rightarrow> slot option"

text \<open>JavaScript truthiness of a stored value (\<^verbatim>\<open>!entry\<close>, \<^verbatim>\<open>entry && ...\<close>).\<close>

fun truthy_json :: "json \<Rightarrow> bool" where
  "truthy_json JNull = False"
| "truthy_json (JBool b) = b"
| "truthy_json (JNum n) = (n \<noteq> 0)"
| "truthy_json (JStr s) = (s \<noteq> [])"
| "truthy_json (JArr _) = True"
| "truthy_json (JObj _) = True"

fun truthy_slot :: "slot \<Rightarrow> bool" where
  "truthy_slot (Entry _) = True"
| "truthy_slot (Prim j) = truthy_json j"

text \<open>\<^verbatim>\<open>store[key]\<close> read as a condition: the key is present with a truthy value.\<close>

definition present :: "store \<Rightarrow> string \<Rightarrow> bool" where
  "present s k = (case s k of None \<Rightarrow> False | Some v \<Rightarrow> truthy_slot v)"

text \<open>The own enumerable properties that \<^verbatim>\<open>{...x}\<close> copies and \<^verbatim>\<open>x.field\<close> reads.\<close>

fun props :: "slot \<Rightarrow> entry" where
  "props (Entry e) = e"
| "props (Prim _) = Map.empty"

definition props_opt :: "slot option \<Rightarrow> entry" where
  "props_opt x = (case x of None \<Rightarrow> Map.empty | Some v \<Rightarrow> props v)"

text \<open>\<^verbatim>\<open>x?.field\<close>: the property's value, \<^verbatim>\<open>undefined\<close> when it is absent.\<close>

definition field :: "entry \<Rightarrow> string \<Rightarrow> jsval" where
  "field e k = (case e k of None \<Rightarrow> Undefined | Some v \<Rightarrow> v)"

text \<open>\<^verbatim>\<open>typeof v === "string"\<close>.\<close>

fun is_string :: "jsval \<Rightarrow> bool" where
  "is_string (Val (JStr _)) = True"
| "is_string _ = False"

text \<open>
  What \<^verbatim>\<open>JSON.stringify\<close> followed by a parse keeps of a store: the properties whose
  value is \<^verbatim>\<open>undefined\<close> are dropped from every record.
\<close>

definition strip_entry :: "entry \<Rightarrow> entry" where
  "strip_entry e = (\<lambda>k. case e k of Some Undefined \<Rightarrow> None | x \<Rightarrow> x)"

definition stringify :: "store \<Rightarrow> store" where
  "stringify s = (\<lambda>k. case s k of Some (Entry e) \<Rightarrow> Some (Entry (strip_entry e)) | x \<Rightarrow> x)"

section \<open>The file system, the clock and the read cache\<close>

text \<open>
  The content of a file is what \<^verbatim>\<open>JSON5.parse\<close> makes of it: it throws
  (\<open>Unparseable\<close>), yields a value that is falsy or not an object (\<open>Parsed_other\<close>), or
  yields an object (\<open>Parsed_object\<close>). A document whose top level is an array is outside
  the model. The file system is flat (the parent directory exists once \<^verbatim>\<open>mkdir\<close> has
  run), the clock is \<^verbatim>\<open>Date.now()\<close> in milliseconds and moves only when the process
  sleeps, and \<open>cache\<close> is the module-level \<^verbatim>\<open>SESSION_STORE_CACHE\<close>.
\<close>

datatype content = Unparseable | Parsed_other | Parsed_object store

record file_node =
  content :: content
  mtimeMs :: int

record cache_entry =
  cstore :: store
  loadedAt :: int
  cmtimeMs :: "int option"

record world =
  files :: "string \<Rightarrow> file_node option"
  clock :: int
  cache :: "string \<Rightarrow> cache_entry option"

text \<open>
  What the process reads from its environment: the cache settings that
  \<^verbatim>\<open>resolveCacheTtlMs\<close> and \<^verbatim>\<open>isCacheEnabled\<close> (cache-utils, not part of the sources)
  derive from \<^verbatim>\<open>CLAWDBOT_SESSION_CACHE_TTL_MS\<close>, the platform, the process id and the
  UUID drawn for a temporary file name.
\<close>

record env =
  cacheTtlMs :: int
  cacheEnabled :: bool
  win32 :: bool
  pid :: string
  tmpUuid :: string

datatype error = LockTimeout string | Thrown string

definition getFileMtimeMs :: "world \<Rightarrow> string \<Rightarrow> int option" where
  "getFileMtimeMs w p = map_option mtimeMs (files w p)"

definition writeFile :: "string \<Rightarrow> content \<Rightarrow> world \<Rightarrow> world" where
  "writeFile p c w = w\<lparr>files := (files w)(p \<mapsto> \<lparr>content = c, mtimeMs = clock w\<rparr>)\<rparr>"

definition unlink :: "string \<Rightarrow> world \<Rightarrow> world" where
  "unlink p w = w\<lparr>files := (files w)(p := None)\<rparr>"

definition rename :: "string \<Rightarrow> string \<Rightarrow> world \<Rightarrow> world" where
  "rename src dst w =
     (case files w src of
        None \<Rightarrow> w
      | Some f \<Rightarrow> w\<lparr>files := ((files w)(dst \<mapsto> f))(src := None)\<rparr>)"

text \<open>
  \<^verbatim>\<open>await new Promise((r) => setTimeout(r, ms))\<close>: Node raises a delay below one
  millisecond to one.
\<close>

definition sleep :: "int \<Rightarrow> world \<Rightarrow> world" where
  "sleep ms w = w\<lparr>clock := clock w + max 1 ms\<rparr>"

subsection \<open>The read cache\<close>

definition isSessionStoreCacheEnabled :: "env \<Rightarrow> bool" where
  "isSessionStoreCacheEnabled en = cacheEnabled en"

definition isSessionStoreCacheValid :: "env \<Rightarrow> world \<Rightarrow> cache_entry \<Rightarrow> bool" where
  "isSessionStoreCacheValid en w c = (clock w - loadedAt c \<le> cacheTtlMs en)"

definition invalidateSessionStoreCache :: "string \<Rightarrow> world \<Rightarrow> world" where
  "invalidateSessionStoreCache storePath w = w\<lparr>cache := (cache w)(storePath := None)\<rparr>"

subsection \<open>loadSessionStore\<close>

text \<open>
  The best-effort migration of \<^verbatim>\<open>loadSessionStore\<close>: in every stored value that is an
  object, \<^verbatim>\<open>provider\<close> becomes \<^verbatim>\<open>channel\<close> and \<^verbatim>\<open>lastProvider\<close> becomes
  \<^verbatim>\<open>lastChannel\<close>, each when the new name holds no string and the old one does.
\<close>

definition rename_legacy :: "string \<Rightarrow> string \<Rightarrow> entry \<Rightarrow> entry" where
  "rename_legacy old new rec =
     (if \<not> is_string (field rec new) \<and> is_string (field rec old)
      then (rec(new := rec old))(old := None)
      else rec)"

definition migrate_entry :: "entry \<Rightarrow> entry" where
  "migrate_entry rec =
     rename_legacy ''lastProvider'' ''lastChannel'' (rename_legacy ''provider'' ''channel'' rec)"

definition migrate_store :: "store \<Rightarrow> store" where
  "migrate_store s =
     (\<lambda>k. case s k of Some (Entry e) \<Rightarrow> Some (Entry (migrate_entry e)) | x \<Rightarrow> x)"

text \<open>
  The \<^verbatim>\<open>try\<close> block of \<^verbatim>\<open>loadSessionStore\<close>: a missing file and a parse error are
  caught, and a parsed value is taken only when it is an object.
\<close>

definition read_store_file :: "world \<Rightarrow> string \<Rightarrow> store" where
  "read_store_file w storePath =
     (case files w storePath of
        None \<Rightarrow> Map.empty
      | Some f \<Rightarrow>
          (case content f of
             Parsed_object s \<Rightarrow> s
           | _ \<Rightarrow> Map.empty))"

text \<open>
  The cache probe at the head of \<^verbatim>\<open>loadSessionStore\<close>: \<open>Inl\<close> is a hit (the cached
  store is returned), \<open>Inr\<close> the world with which the disk read goes on (the entry is
  dropped when it is within its TTL but the file's mtime has changed).
\<close>

definition cache_probe :: "env \<Rightarrow> string \<Rightarrow> bool \<Rightarrow> world \<Rightarrow> store + world" where
  "cache_probe en storePath skipCache w =
     (if \<not> skipCache \<and> isSessionStoreCacheEnabled en then
        (case cache w storePath of
           None \<Rightarrow> Inr w
         | Some cached \<Rightarrow>
             if isSessionStoreCacheValid en w cached then
               (if getFileMtimeMs w storePath = cmtimeMs cached then Inl (cstore cached)
                else Inr (invalidateSessionStoreCache storePath w))
             else Inr w)
      else Inr w)"

definition loadSessionStore :: "env \<Rightarrow> string \<Rightarrow> bool \<Rightarrow> world \<Rightarrow> store \<times> world" where
  "loadSessionStore en storePath skipCache w =
     (case cache_probe en storePath skipCache w of
        Inl cached \<Rightarrow> (cached, w)
      | Inr w1 \<Rightarrow>
          (let mtime = getFileMtimeMs w1 storePath;
               st = migrate_store (read_store_file w1 storePath);
               w2 = (if \<not> skipCache \<and> isSessionStoreCacheEnabled en
                     then w1\<lparr>cache := (cache w1)(storePath \<mapsto>
                            \<lparr>cstore = st, loadedAt = clock w1, cmtimeMs = mtime\<rparr>)\<rparr>
                     else w1)
           in (st, w2)))"

subsection \<open>saveSessionStoreUnlocked\<close>

definition tmp_path :: "env \<Rightarrow> string \<Rightarrow> string" where
  "tmp_path en storePath = storePath @ ''.'' @ pid en @ ''.'' @ tmpUuid en @ ''.tmp''"

definition saveSessionStoreUnlocked :: "env \<Rightarrow> string \<Rightarrow> store \<Rightarrow> world \<Rightarrow> world" where
  "saveSessionStoreUnlocked en storePath st w =
     (let w1 = invalidateSessionStoreCache storePath w;
          doc = Parsed_object (stringify st)
      in if win32 en then writeFile storePath doc w1
         else (let tmp = tmp_path en storePath;
                   w2 = writeFile tmp doc w1;
                   w3 = rename tmp storePath w2
               in unlink tmp w3))"

subsection \<open>withSessionStoreLock\<close>

record lock_opts =
  timeoutMs :: int
  pollIntervalMs :: int
  staleMs :: int

definition default_lock_opts :: lock_opts where
  "default_lock_opts = \<lparr>timeoutMs = 10000, pollIntervalMs = 25, staleMs = 30000\<rparr>"

definition lock_path :: "string \<Rightarrow> string" where
  "lock_path storePath = storePath @ ''.lock''"

text \<open>The marker's content \<^verbatim>\<open>{ pid, startedAt }\<close>; nothing ever reads it.\<close>

definition lock_meta :: "env \<Rightarrow> int \<Rightarrow> content" where
  "lock_meta en now =
     Parsed_object (Map.empty(''pid'' \<mapsto> Prim (JStr (pid en)), ''startedAt'' \<mapsto> Prim (JNum now)))"

text \<open>
  The acquisition loop. \<^verbatim>\<open>open(lockPath, "wx")\<close> succeeds exactly when the marker is
  absent. On \<^verbatim>\<open>EEXIST\<close> the loop first checks the total wait, then evicts a marker
  older than \<open>staleMs\<close> and retries at once, and otherwise sleeps one poll interval.
\<close>

function acquire_lock :: "env \<Rightarrow> lock_opts \<Rightarrow> string \<Rightarrow> int \<Rightarrow> world \<Rightarrow> (error + unit) \<times> world" where
  "acquire_lock en opts lockPath startedAt w =
     (case files w lockPath of
        None \<Rightarrow> (Inr (), writeFile lockPath (lock_meta en (clock w)) w)
      | Some st \<Rightarrow>
          if clock w - startedAt > timeoutMs opts then (Inl (LockTimeout lockPath), w)
          else if clock w - mtimeMs st > staleMs opts
            then acquire_lock en opts lockPath startedAt (unlink lockPath w)
            else acquire_lock en opts lockPath startedAt (sleep (pollIntervalMs opts) w))"
  by pat_completeness auto
termination
proof (relation "measure (\<lambda>(en, opts, lockPath, startedAt, w).
          (case files w lockPath of None \<Rightarrow> 0 | Some _ \<Rightarrow> 1)
          + 2 * nat (timeoutMs opts - (clock w - startedAt) + 1))", goal_cases)
  case 1
  show ?case by simp
next
  case (2 en opts lockPath startedAt w st)
  then show ?case by (simp add: unlink_def)
next
  case (3 en opts lockPath startedAt w st)
  then show ?case by (simp add: sleep_def max_def)
qed

definition withSessionStoreLock ::
  "env \<Rightarrow> lock_opts \<Rightarrow> string \<Rightarrow> (world \<Rightarrow> (error + 'a) \<times> world) \<Rightarrow> world \<Rightarrow> (error + 'a) \<times> world" where
  "withSessionStoreLock en opts storePath fn w =
     (case acquire_lock en opts (lock_path storePath) (clock w) w of
        (Inl e, w1) \<Rightarrow> (Inl e, w1)
      | (Inr _, w1) \<Rightarrow>
          (case fn w1 of (r, w2) \<Rightarrow> (r, unlink (lock_path storePath) w2)))"

subsection \<open>updateSessionStore\<close>

text \<open>
  A mutator is given the store read under the lock. It may read the clock
  (\<^verbatim>\<open>Date.now()\<close>), changes the store in place and returns a result, or throws:
  \<open>Inl\<close> is the exception, \<open>Inr (result, store')\<close> the result with the store as the
  mutator left it.
\<close>

type_synonym 'a mutator = "int \<Rightarrow> store \<Rightarrow> error + ('a \<times> store)"

definition updateSessionStore ::
  "env \<Rightarrow> string \<Rightarrow> 'a mutator \<Rightarrow> world \<Rightarrow> (error + 'a) \<times> world" where
  "updateSessionStore en storePath mutator w =
     withSessionStoreLock en default_lock_opts storePath
       (\<lambda>w0. case loadSessionStore en storePath True w0 of
                (st, w1) \<Rightarrow>
                  (case mutator (clock w1) st of
                     Inl e \<Rightarrow> (Inl e, w1)
                   | Inr (result, st') \<Rightarrow> (Inr result, saveSessionStoreUnlocked en storePath st' w1)))
       w"

subsection \<open>updateSessionStoreEntry and updateLastRoute\<close>

text \<open>
  \<^verbatim>\<open>mergeSessionEntry\<close> (sessions/types, not part of the sources) is a parameter: it
  takes the existing value, if any, and the patch. The \<open>update\<close> callback returns a
  patch, \<^verbatim>\<open>null\<close> (\<open>None\<close>) or throws. Both functions read the store with
  \<^verbatim>\<open>loadSessionStore(storePath)\<close>, that is, through the cache.
\<close>

definition updateSessionStoreEntry ::
  "env \<Rightarrow> (slot option \<Rightarrow> entry \<Rightarrow> entry) \<Rightarrow> string \<Rightarrow> string \<Rightarrow>
   (slot \<Rightarrow> error + entry option) \<Rightarrow> world \<Rightarrow> (error + slot option) \<times> world" where
  "updateSessionStoreEntry en mergeSessionEntry storePath sessionKey update w =
     withSessionStoreLock en default_lock_opts storePath
       (\<lambda>w0. case loadSessionStore en storePath False w0 of
                (st, w1) \<Rightarrow>
                  (case st sessionKey of
                     None \<Rightarrow> (Inr None, w1)
                   | Some existing \<Rightarrow>
                       if \<not> truthy_slot existing then (Inr None, w1)
                       else (case update existing of
                               Inl e \<Rightarrow> (Inl e, w1)
                             | Inr None \<Rightarrow> (Inr (Some existing), w1)
                             | Inr (Some patch) \<Rightarrow>
                                 (let next = Entry (mergeSessionEntry (Some existing) patch)
                                  in (Inr (Some next),
                                      saveSessionStoreUnlocked en storePath
                                        (st(sessionKey \<mapsto> next)) w1)))))
       w"

text \<open>
  \<^verbatim>\<open>Math.max(existing?.updatedAt ?? 0, now)\<close> for the values a record's
  \<^verbatim>\<open>updatedAt\<close> has by its type (a number, or none).
\<close>

fun updatedAt_or_zero :: "jsval \<Rightarrow> int" where
  "updatedAt_or_zero (Val (JNum n)) = n"
| "updatedAt_or_zero _ = 0"

text \<open>\<^verbatim>\<open>x?.trim() ? x.trim() : fallback\<close> for an optional string argument.\<close>

definition trimmed_or :: "string option \<Rightarrow> jsval \<Rightarrow> jsval" where
  "trimmed_or x fallback =
     (case x of
        None \<Rightarrow> fallback
      | Some s \<Rightarrow> if trim s = [] then fallback else Val (JStr (trim s)))"

definition updateLastRoute ::
  "env \<Rightarrow> (slot option \<Rightarrow> entry \<Rightarrow> entry) \<Rightarrow> string \<Rightarrow> string \<Rightarrow>
   string option \<Rightarrow> string option \<Rightarrow> string option \<Rightarrow> world \<Rightarrow> (error + slot) \<times> world" where
  "updateLastRoute en mergeSessionEntry storePath sessionKey channel to accountId w =
     withSessionStoreLock en default_lock_opts storePath
       (\<lambda>w0. case loadSessionStore en storePath False w0 of
                (st, w1) \<Rightarrow>
                  (let existing = st sessionKey;
                       now = clock w1;
                       patch = Map.empty(
                         ''updatedAt'' \<mapsto>
                            Val (JNum (max (updatedAt_or_zero (field (props_opt existing) ''updatedAt'')) now)),
                         ''lastChannel'' \<mapsto> (case channel of None \<Rightarrow> Undefined | Some c \<Rightarrow> Val (JStr c)),
                         ''lastTo'' \<mapsto> trimmed_or to Undefined,
                         ''lastAccountId'' \<mapsto>
                            trimmed_or accountId (field (props_opt existing) ''lastAccountId''));
                       next = Entry (mergeSessionEntry existing patch)
                   in (Inr next, saveSessionStoreUnlocked en storePath (st(sessionKey \<mapsto> next)) w1)))
       w"

declare acquire_lock.simps [simp del]

section \<open>Specification-side notions for the store\<close>

text \<open>
  The cache is a memo of disk reads: an entry recorded with the file's present mtime
  holds what a read of the file returns. \<^verbatim>\<open>loadSessionStore\<close> records entries in this
  way and \<^verbatim>\<open>saveSessionStoreUnlocked\<close> drops the path's entry.
\<close>

definition cache_coherent :: "world \<Rightarrow> string \<Rightarrow> bool" where
  "cache_coherent w p =
     (case cache w p of
        None \<Rightarrow> True
      | Some c \<Rightarrow> getFileMtimeMs w p \<noteq> cmtimeMs c \<or> cstore c = migrate_store (read_store_file w p))"

text \<open>
  The rename the spec asks of the read-time migration, stated on a record \<open>e\<close> and its
  migrated form \<open>e'\<close>: a legacy field holding a string moves to the current name unless
  the current name already holds a string.
\<close>

definition legacy_renamed :: "string \<Rightarrow> string \<Rightarrow> entry \<Rightarrow> entry \<Rightarrow> bool" where
  "legacy_renamed old new e e' =
     (if is_string (field e old) \<and> \<not> is_string (field e new)
      then e' new = e old \<and> e' old = None
      else e' new = e new \<and> e' old = e old)"

text \<open>
  A valid record map, as it is persisted: records of the current schema (no legacy
  \<^verbatim>\<open>provider\<close> or \<^verbatim>\<open>lastProvider\<close> field) with no \<^verbatim>\<open>undefined\<close> property, which a
  JSON document cannot hold.
\<close>

definition valid_entry :: "entry \<Rightarrow> bool" where
  "valid_entry e =
     (e ''provider'' = None \<and> e ''lastProvider'' = None \<and> (\<forall>f. e f \<noteq> Some Undefined))"

definition valid_store :: "store \<Rightarrow> bool" where
  "valid_store s = (\<forall>k e. s k = Some (Entry e) \<longrightarrow> valid_entry e)"

subsection \<open>Concrete worlds used to exercise the theorems\<close>

definition demo_env :: env where
  "demo_env =
     \<lparr>cacheTtlMs = 45000, cacheEnabled = True, win32 = False, pid = ''4242'', tmpUuid = ''u-1''\<rparr>"

definition legacy_world :: world where
  "legacy_world =
     \<lparr>files = Map.empty(''sessions.json'' \<mapsto>
         \<lparr>content = Parsed_object (Map.empty(''agent:main:main'' \<mapsto>
              Entry (Map.empty(''sessionId'' \<mapsto> Val (JStr ''s-1''),
                               ''provider'' \<mapsto> Val (JStr ''slack''))))),
          mtimeMs = 1000\<rparr>),
      clock = 2000,
      cache = Map.empty\<rparr>"

definition demo_entry :: entry where
  "demo_entry = Map.empty(''sessionId'' \<mapsto> Val (JStr ''s-1''),
                          ''updatedAt'' \<mapsto> Val (JNum 1000),
                          ''modelOverride'' \<mapsto> Val (JStr ''foo/bar''))"

definition demo_store :: store where
  "demo_store = Map.empty(''agent:main:main'' \<mapsto> Entry demo_entry)"

definition valid_world :: world where
  "valid_world =
     \<lparr>files = Map.empty(''sessions.json'' \<mapsto>
                \<lparr>content = Parsed_object demo_store, mtimeMs = 1000\<rparr>),
      clock = 2000,
      cache = Map.empty\<rparr>"


section \<open>Specification-side notions for the lock\<close>





section \<open>A cache entry that is behind the file\<close>

text \<open>
  The cache holds, for \<^verbatim>\<open>sessions.json\<close>, the store as it was read 500 ms ago. Since
  then another process has rewritten the file, adding \<^verbatim>\<open>thinkingLevel\<close> to the
  record, within the same mtime tick: the file's mtime still equals the one the cache
  recorded, and the entry is within its TTL.
\<close>

definition stale_cache_world :: world where
  "stale_cache_world =
     \<lparr>files = Map.empty(''sessions.json'' \<mapsto>
         \<lparr>content = Parsed_object (Map.empty(''agent:main:main'' \<mapsto>
              Entry (Map.empty(''sessionId'' \<mapsto> Val (JStr ''s-1''),
                               ''thinkingLevel'' \<mapsto> Val (JStr ''high''))))),
          mtimeMs = 1000\<rparr>),
      clock = 2000,
      cache = Map.empty(''sessions.json'' \<mapsto>
         \<lparr>cstore = Map.empty(''agent:main:main'' \<mapsto>
              Entry (Map.empty(''sessionId'' \<mapsto> Val (JStr ''s-1'')))),
          loadedAt = 1500,
          cmtimeMs = Some 1000\<rparr>)\<rparr>"

text \<open>An instance of \<^verbatim>\<open>mergeSessionEntry\<close>: the patch spread over the existing record.\<close>

definition spread_merge :: "slot option \<Rightarrow> entry \<Rightarrow> entry" where
  "spread_merge existing patch = props_opt existing ++ patch"

definition model_patch :: entry where
  "model_patch = Map.empty(''model'' \<mapsto> Val (JStr ''gpt-5''))"

text \<open>The same change made through \<^verbatim>\<open>updateSessionStore\<close>.\<close>

definition model_mutator :: "unit mutator" where
  "model_mutator now st =
     Inr ((), st(''agent:main:main'' \<mapsto>
                 Entry (spread_merge (st ''agent:main:main'') model_patch)))"

section \<open>The management operations sessions.reset and sessions.delete\<close>

text \<open>
  \<^verbatim>\<open>handleSessionsBridgeMethods\<close> answers a request with an error (a code and a message)
  or with a payload. What it takes from outside the sources is gathered in \<open>gateway\<close>:
  the outcome of the schema validator, the configured main session key
  (\<^verbatim>\<open>resolveMainSessionKeyFromConfig\<close>), the target that
  \<^verbatim>\<open>resolveGatewaySessionStoreTarget\<close> resolves the key to, the session id that
  \<^verbatim>\<open>loadSessionEntry\<close> finds, whether an embedded run of that session is active and
  whether it ends within the 15 s the handler waits, the transcripts archived, and the
  UUID drawn by \<^verbatim>\<open>randomUUID\<close>.
\<close>

datatype error_code = INVALID_REQUEST | UNAVAILABLE

datatype 'a response = RespError error_code string | RespOk 'a

record gateway =
  paramsValid :: bool
  validationErrors :: string
  mainKey :: string
  targetStorePath :: string
  targetStoreKeys :: "string list"
  loadedSessionId :: "string option"
  runActive :: bool
  runEndsInTime :: bool
  archivedTranscripts :: "string list"
  randomUUID :: string

text \<open>\<^verbatim>\<open>String(p.key ?? "").trim()\<close>.\<close>

definition request_key :: "string option \<Rightarrow> string" where
  "request_key k = trim (case k of None \<Rightarrow> [] | Some s \<Rightarrow> s)"

text \<open>
  The prologue every mutating case runs inside the lock: the primary key is the first
  store key of the target (the request's key when there is none); a record found under
  another candidate key is moved to the primary key when that one holds nothing.
\<close>

definition primary_key :: "string list \<Rightarrow> string \<Rightarrow> string" where
  "primary_key storeKeys key = (case storeKeys of [] \<Rightarrow> key | k # _ \<Rightarrow> k)"

definition adopt_existing_key :: "string list \<Rightarrow> string \<Rightarrow> store \<Rightarrow> store" where
  "adopt_existing_key storeKeys key st =
     (let primaryKey = primary_key storeKeys key in
      case find (present st) storeKeys of
        None \<Rightarrow> st
      | Some existingKey \<Rightarrow>
          if existingKey \<noteq> [] \<and> existingKey \<noteq> primaryKey \<and> \<not> present st primaryKey
          then (st(primaryKey := st existingKey))(existingKey := None)
          else st)"

subsection \<open>sessions.delete\<close>




subsection \<open>sessions.reset\<close>

text \<open>
  The record \<^verbatim>\<open>sessions.reset\<close> stores: a new id, cleared flags, and the fields it
  copies from the record it replaces. Every listed property is present, with the value
  \<^verbatim>\<open>undefined\<close> where the old record has none.
\<close>

definition reset_kept_fields :: "string list" where
  "reset_kept_fields =
     [''thinkingLevel'', ''verboseLevel'', ''reasoningLevel'', ''model'', ''contextTokens'',
      ''sendPolicy'', ''label'', ''displayName'', ''chatType'', ''channel'', ''subject'',
      ''room'', ''space'', ''lastChannel'', ''lastTo'', ''skillsSnapshot'']"

definition reset_entry :: "string \<Rightarrow> int \<Rightarrow> slot option \<Rightarrow> entry" where
  "reset_entry uuid now old =
     (\<lambda>k. if k = ''sessionId'' then Some (Val (JStr uuid))
          else if k = ''updatedAt'' then Some (Val (JNum now))
          else if k = ''systemSent'' then Some (Val (JBool False))
          else if k = ''abortedLastRun'' then Some (Val (JBool False))
          else if k \<in> set reset_kept_fields then Some (field (props_opt old) k)
          else None)"

definition reset_mutator :: "string \<Rightarrow> string list \<Rightarrow> string \<Rightarrow> entry mutator" where
  "reset_mutator uuid storeKeys key now st0 =
     (let primaryKey = primary_key storeKeys key;
          st = adopt_existing_key storeKeys key st0;
          nextEntry = reset_entry uuid now (st primaryKey)
      in Inr (nextEntry, st(primaryKey \<mapsto> Entry nextEntry)))"

definition sessions_reset ::
  "env \<Rightarrow> gateway \<Rightarrow> string option \<Rightarrow> world \<Rightarrow> (error + (string \<times> entry) response) \<times> world" where
  "sessions_reset en g p_key w =
     (if \<not> paramsValid g then
        (Inr (RespError INVALID_REQUEST (''invalid sessions.reset params: '' @ validationErrors g)), w)
      else
        let key = request_key p_key in
        if key = [] then (Inr (RespError INVALID_REQUEST ''key required''), w)
        else
          (case updateSessionStore en (targetStorePath g)
                  (reset_mutator (randomUUID g) (targetStoreKeys g) key) w of
             (Inl e, w') \<Rightarrow> (Inl e, w')
           | (Inr next, w') \<Rightarrow> (Inr (RespOk (key, next)), w')))"

section \<open>Specification-side notions for the management operations\<close>





subsection \<open>A store with a main session and a second session\<close>




definition idle_gateway :: gateway where
  "idle_gateway =
     \<lparr>paramsValid = True, validationErrors = [], mainKey = ''agent:main:main'',
      targetStorePath = ''sessions.json'', targetStoreKeys = [''agent:main:work''],
      loadedSessionId = Some ''s-2'', runActive = False, runEndsInTime = True,
      archivedTranscripts = [], randomUUID = ''s-3''\<rparr>"


definition main_gateway :: gateway where
  "main_gateway = idle_gateway\<lparr>targetStoreKeys := [''agent:main:main''], loadedSessionId := Some ''s-1''\<rparr>"

section \<open>Model directive resolution\<close>

text \<open>
  \<^verbatim>\<open>resolveModelDirectiveSelection\<close> and \<^verbatim>\<open>scoreFuzzyMatch\<close> of model-selection.ts.
  The helpers they import from agents/model-selection, which is not part of the
  sources, are parameters (\<open>model_deps\<close>): \<^verbatim>\<open>normalizeProviderId\<close>, \<^verbatim>\<open>modelKey\<close>,
  \<^verbatim>\<open>resolveModelRefFromString\<close> (applied to the trimmed directive; it yields a
  provider, a model and possibly an alias, or nothing) and the collation behind
  \<^verbatim>\<open>localeCompare\<close>. The alias index gives the aliases of a model key and, in the
  order of the underlying map, the alias keys with the model each stands for. The
  allow-list is the set's elements in insertion order.
\<close>

record model_deps =
  normalizeProviderId :: "string \<Rightarrow> string"
  modelKey :: "string \<Rightarrow> string \<Rightarrow> string"
  resolveModelRefFromString :: "string \<Rightarrow> ((string \<times> string) \<times> string option) option"
  localeCompare :: "string \<Rightarrow> string \<Rightarrow> int"

record alias_index =
  byKey :: "string \<Rightarrow> string list option"
  byAlias :: "(string \<times> (string \<times> string)) list"

record selection =
  sel_provider :: string
  sel_model :: string
  sel_isDefault :: bool
  sel_alias :: "string option"

text \<open>The result object \<^verbatim>\<open>{ selection?, error? }\<close>; \<open>Unresolved\<close> is the empty object.\<close>

datatype resolution = Selected selection | Failed string | Unresolved

definition FUZZY_VARIANT_TOKENS :: "string list" where
  "FUZZY_VARIANT_TOKENS =
     [''lightning'', ''preview'', ''mini'', ''fast'', ''turbo'', ''lite'', ''beta'', ''small'', ''nano'']"

record fuzzy_score =
  fs_score :: int
  fs_isDefault :: bool
  fs_variantCount :: nat
  fs_variantMatchCount :: nat
  fs_modelLength :: nat
  fs_key :: string

definition scoreFragment :: "string \<Rightarrow> string \<Rightarrow> int \<Rightarrow> int \<Rightarrow> int \<Rightarrow> int" where
  "scoreFragment fragment v exact starts incl =
     (if fragment = [] then 0
      else
        let s1 = (if v = fragment then max 0 exact else 0);
            s2 = (if startsWith v fragment then max s1 starts else s1)
        in if str_includes v fragment then max s2 incl else s2)"

definition scoreFuzzyMatch ::
  "model_deps \<Rightarrow> alias_index \<Rightarrow> string \<Rightarrow> string \<Rightarrow> string \<Rightarrow> string \<Rightarrow> string \<Rightarrow> fuzzy_score" where
  "scoreFuzzyMatch d aliasIndex p_provider p_model p_fragment defaultProvider defaultModel =
     (let provider = normalizeProviderId d p_provider;
          model = p_model;
          fragment = toLowerCase (trim p_fragment);
          providerLower = toLowerCase provider;
          modelLower = toLowerCase model;
          haystack = providerLower @ ''/'' @ modelLower;
          k = modelKey d provider model;
          s0 = scoreFragment fragment haystack 220 140 110
               + scoreFragment fragment providerLower 180 120 90
               + scoreFragment fragment modelLower 160 110 80;
          aliases = (case byKey aliasIndex k of None \<Rightarrow> [] | Some as \<Rightarrow> as);
          s1 = foldl (\<lambda>s alias. s + scoreFragment fragment (toLowerCase alias) 140 90 60) s0 aliases;
          s2 = (if startsWith modelLower providerLower then s1 + 30 else s1);
          fragmentVariants = filter (\<lambda>token. str_includes fragment token) FUZZY_VARIANT_TOKENS;
          modelVariants = filter (\<lambda>token. str_includes modelLower token) FUZZY_VARIANT_TOKENS;
          vmc = length (filter (\<lambda>token. str_includes modelLower token) fragmentVariants);
          vc = length modelVariants;
          s3 = (if fragmentVariants = [] \<and> vc > 0 then s2 - int vc * 30
                else if fragmentVariants \<noteq> [] then
                  (let s = (if vmc > 0 then s2 + int vmc * 40 else s2)
                   in if vmc = 0 then s - 20 else s)
                else s2);
          dflt = (provider = normalizeProviderId d defaultProvider \<and> model = defaultModel);
          s4 = (if dflt then s3 + 20 else s3)
      in \<lparr>fs_score = s4, fs_isDefault = dflt, fs_variantCount = vc, fs_variantMatchCount = vmc,
          fs_modelLength = length modelLower, fs_key = k\<rparr>)"

text \<open>
  The comparator of the sort in \<^verbatim>\<open>resolveFuzzy\<close> (negative: \<open>a\<close> first), and
  \<^verbatim>\<open>Array.prototype.sort\<close> as the stable sort it is.
\<close>

definition compare_scored ::
  "model_deps \<Rightarrow> (string \<times> string) \<times> fuzzy_score \<Rightarrow> (string \<times> string) \<times> fuzzy_score \<Rightarrow> int" where
  "compare_scored d a b =
     (let x = snd a; y = snd b in
      if fs_score y \<noteq> fs_score x then fs_score y - fs_score x
      else if fs_isDefault x \<noteq> fs_isDefault y then (if fs_isDefault x then - 1 else 1)
      else if fs_variantMatchCount x \<noteq> fs_variantMatchCount y
        then int (fs_variantMatchCount y) - int (fs_variantMatchCount x)
      else if fs_variantCount x \<noteq> fs_variantCount y then int (fs_variantCount x) - int (fs_variantCount y)
      else if fs_modelLength x \<noteq> fs_modelLength y then int (fs_modelLength x) - int (fs_modelLength y)
      else localeCompare d (fs_key x) (fs_key y))"

fun insert_by :: "('a \<Rightarrow> 'a \<Rightarrow> int) \<Rightarrow> 'a \<Rightarrow> 'a list \<Rightarrow> 'a list" where
  "insert_by cmp x [] = [x]"
| "insert_by cmp x (y # ys) = (if cmp x y \<le> 0 then x # y # ys else y # insert_by cmp x ys)"

definition stable_sort :: "('a \<Rightarrow> 'a \<Rightarrow> int) \<Rightarrow> 'a list \<Rightarrow> 'a list" where
  "stable_sort cmp xs = foldr (insert_by cmp) xs []"

definition buildSelection ::
  "model_deps \<Rightarrow> alias_index \<Rightarrow> string \<Rightarrow> string \<Rightarrow> string \<Rightarrow> string \<Rightarrow> selection" where
  "buildSelection d aliasIndex defaultProvider defaultModel provider model =
     \<lparr>sel_provider = provider, sel_model = model,
      sel_isDefault = (provider = defaultProvider \<and> model = defaultModel),
      sel_alias = (case byKey aliasIndex (modelKey d provider model) of
                     None \<Rightarrow> None
                   | Some [] \<Rightarrow> None
                   | Some (alias # _) \<Rightarrow> if alias = [] then None else Some alias)\<rparr>"

text \<open>The first loop of \<^verbatim>\<open>resolveFuzzy\<close>: the allow-listed keys that contain the fragment.\<close>

definition key_candidate ::
  "model_deps \<Rightarrow> string option \<Rightarrow> string \<Rightarrow> string \<Rightarrow> (string \<times> string) option" where
  "key_candidate d p_provider fragment k =
     (case indexOf k (CHR ''/'') of
        None \<Rightarrow> None
      | Some slash \<Rightarrow>
          if slash = 0 then None
          else
            let provider = normalizeProviderId d (take slash k);
                model = drop (slash + 1) k
            in if (case p_provider of
                     None \<Rightarrow> False
                   | Some pp \<Rightarrow> pp \<noteq> [] \<and> provider \<noteq> normalizeProviderId d pp) then None
               else if str_includes (toLowerCase (provider @ ''/'' @ model)) fragment
                       \<or> str_includes (toLowerCase model) fragment
                 then Some (provider, model)
               else None)"

text \<open>The second loop: models reached through an alias that contains the fragment.\<close>

definition add_alias_match ::
  "model_deps \<Rightarrow> string list \<Rightarrow> (string \<times> string) list \<Rightarrow> (string \<times> string) \<Rightarrow> (string \<times> string) list" where
  "add_alias_match d allowedModelKeys candidates m =
     (if modelKey d (fst m) (snd m) \<notin> set allowedModelKeys then candidates
      else if m \<in> set candidates then candidates
      else candidates @ [m])"

definition resolveFuzzy ::
  "model_deps \<Rightarrow> alias_index \<Rightarrow> string list \<Rightarrow> string \<Rightarrow> string \<Rightarrow>
   string option \<Rightarrow> string \<Rightarrow> resolution" where
  "resolveFuzzy d aliasIndex allowedModelKeys defaultProvider defaultModel p_provider p_fragment =
     (let fragment = toLowerCase (trim p_fragment) in
      if fragment = [] then Unresolved
      else
        let fromKeys = List.map_filter (key_candidate d p_provider fragment) allowedModelKeys;
            no_provider = (case p_provider of None \<Rightarrow> True | Some pp \<Rightarrow> pp = []);
            aliasMatches = (if no_provider
                            then map snd (filter (\<lambda>(aliasKey, ref). str_includes aliasKey fragment)
                                            (byAlias aliasIndex))
                            else []);
            candidates = foldl (add_alias_match d allowedModelKeys) fromKeys aliasMatches
        in case candidates of
             [] \<Rightarrow> Unresolved
           | [m] \<Rightarrow> Selected (buildSelection d aliasIndex defaultProvider defaultModel (fst m) (snd m))
           | _ \<Rightarrow>
               (case stable_sort (compare_scored d)
                       (map (\<lambda>c. (c, scoreFuzzyMatch d aliasIndex (fst c) (snd c) fragment
                                        defaultProvider defaultModel)) candidates) of
                  [] \<Rightarrow> Unresolved
                | (best, _) # _ \<Rightarrow>
                    Selected (buildSelection d aliasIndex defaultProvider defaultModel (fst best) (snd best))))"

text \<open>A fuzzy result is returned when it carries a selection or an error.\<close>

fun settled :: "resolution \<Rightarrow> bool" where
  "settled Unresolved = False"
| "settled _ = True"

definition resolveModelDirectiveSelection ::
  "model_deps \<Rightarrow> alias_index \<Rightarrow> string list \<Rightarrow> string \<Rightarrow> string \<Rightarrow> string \<Rightarrow> resolution" where
  "resolveModelDirectiveSelection d aliasIndex allowedModelKeys defaultProvider defaultModel raw =
     (let rawTrimmed = trim raw;
          rawLower = toLowerCase rawTrimmed;
          fuzzyAll = resolveFuzzy d aliasIndex allowedModelKeys defaultProvider defaultModel None rawTrimmed
      in case resolveModelRefFromString d rawTrimmed of
           None \<Rightarrow>
             if settled fuzzyAll then fuzzyAll
             else Failed (''Unrecognized model \"'' @ rawTrimmed @ ''\". Use /model to list available models.'')
         | Some ((rp, rm), ralias) \<Rightarrow>
             if allowedModelKeys = [] \<or> modelKey d rp rm \<in> set allowedModelKeys then
               Selected \<lparr>sel_provider = rp, sel_model = rm,
                         sel_isDefault = (rp = defaultProvider \<and> rm = defaultModel),
                         sel_alias = ralias\<rparr>
             else
               let scoped =
                     (case indexOf rawTrimmed (CHR ''/'') of
                        None \<Rightarrow> Unresolved
                      | Some slash \<Rightarrow>
                          resolveFuzzy d aliasIndex allowedModelKeys defaultProvider defaultModel
                            (Some (normalizeProviderId d (trim (take slash rawTrimmed))))
                            (trim (drop (slash + 1) rawTrimmed)))
               in if settled scoped then scoped
                  else if settled fuzzyAll then fuzzyAll
                  else Failed (''Model \"'' @ rp @ ''/'' @ rm
                                 @ ''\" is not allowed. Use /model to list available models.''))"

subsection \<open>The allow-list of the spec's example\<close>

definition lower_deps :: model_deps where
  "lower_deps =
     \<lparr>normalizeProviderId = (\<lambda>p. toLowerCase (trim p)),
      modelKey = (\<lambda>p m. p @ ''/'' @ m),
      resolveModelRefFromString = (\<lambda>raw. None),
      localeCompare = (\<lambda>a b. 0)\<rparr>"




definition mini_allow_list :: "string list" where
  "mini_allow_list = [''openai/gpt-5'', ''openai/gpt-5-mini'']"

text \<open>An alias index in which \<open>minimal\<close> stands for the other allow-listed model.\<close>

definition minimal_alias :: alias_index where
  "minimal_alias =
     \<lparr>byKey = [''openai/gpt-5'' \<mapsto> [''minimal'']],
      byAlias = [(''minimal'', (''openai'', ''gpt-5''))]\<rparr>"

section \<open>Thinking-level directives\<close>

text \<open>
  The two places of the reply pipeline that meet the thinking level \<^verbatim>\<open>xhigh\<close> on a
  model that does not support it: \<^verbatim>\<open>runPreparedReply\<close>, which runs the agent on a
  message, and \<^verbatim>\<open>handleDirectiveOnly\<close>, which answers a message that consists of
  directives only. Levels are the strings they are at run time. The helpers of
  \<^verbatim>\<open>auto-reply/thinking\<close>, \<^verbatim>\<open>directive-handling.shared\<close> and \<^verbatim>\<open>sessions/level-overrides\<close>,
  which are not part of the sources, are parameters (\<open>think_deps\<close>); \<open>numberText\<close> is
  the text of a number in a template literal.
\<close>

record directives =
  hasThinkDirective :: bool
  thinkLevel :: "string option"
  rawThinkLevel :: "string option"
  hasVerboseDirective :: bool
  verboseLevel :: "string option"
  rawVerboseLevel :: "string option"
  hasReasoningDirective :: bool
  reasoningLevel :: "string option"
  rawReasoningLevel :: "string option"
  hasElevatedDirective :: bool
  elevatedLevel :: "string option"
  rawElevatedLevel :: "string option"
  hasModelDirective :: bool
  hasStatusDirective :: bool
  hasQueueDirective :: bool
  queueReset :: bool
  queueMode :: "string option"
  debounceMs :: "int option"
  cap :: "int option"
  dropPolicy :: "string option"

record think_deps =
  supportsXHighThinking :: "string \<Rightarrow> string \<Rightarrow> bool"
  formatXHighModelHint :: string
  formatThinkingLevels :: "string \<Rightarrow> string \<Rightarrow> string"
  normalizeThinkLevel :: "string \<Rightarrow> string option"
  withOptions :: "string \<Rightarrow> string \<Rightarrow> string"
  formatDirectiveAck :: "string \<Rightarrow> string"
  formatElevatedRuntimeHint :: string
  applyVerboseOverride :: "entry \<Rightarrow> string \<Rightarrow> entry"
  numberText :: "int \<Rightarrow> string"

text \<open>An optional string read as a condition: it is given and not empty.\<close>

definition truthy_str :: "string option \<Rightarrow> bool" where
  "truthy_str x = (case x of None \<Rightarrow> False | Some s \<Rightarrow> s \<noteq> [])"

text \<open>\<^verbatim>\<open>x ?? d\<close> on an optional string.\<close>

definition or_default :: "string option \<Rightarrow> string \<Rightarrow> string" where
  "or_default x d = (case x of None \<Rightarrow> d | Some s \<Rightarrow> s)"

text \<open>\<^verbatim>\<open>s.split(/\s+/)\<close> and \<^verbatim>\<open>parts.join(sep)\<close>.\<close>

function split_ws :: "string \<Rightarrow> string list" where
  "split_ws s =
     (let tok = takeWhile (\<lambda>c. \<not> is_space c) s;
          rest = dropWhile (\<lambda>c. \<not> is_space c) s
      in if rest = [] then [tok] else tok # split_ws (dropWhile is_space rest))"
  by pat_completeness auto
termination
proof (relation "measure length")
  show "wf (measure length)"
    by simp
next
  fix s :: string and tok rest
  assume r: "rest = dropWhile (\<lambda>c. \<not> is_space c) s" and ne: "rest \<noteq> []"
  from ne obtain c cs where cs: "rest = c # cs"
    by (cases rest) auto
  have "\<not> \<not> is_space (hd rest)"
    unfolding r using hd_dropWhile[of "\<lambda>c. \<not> is_space c" s] ne[unfolded r] by blast
  then have "is_space c"
    unfolding cs by simp
  then have "dropWhile is_space rest = dropWhile is_space cs"
    using cs by simp
  then have "length (dropWhile is_space rest) \<le> length cs"
    by (simp add: length_dropWhile_le)
  moreover have "length rest \<le> length s"
    using r by (simp add: length_dropWhile_le)
  ultimately show "(dropWhile is_space rest, s) \<in> measure length"
    using cs by simp
qed

declare split_ws.simps [simp del]

fun join_with :: "string \<Rightarrow> string list \<Rightarrow> string" where
  "join_with sep [] = []"
| "join_with sep [x] = x"
| "join_with sep (x # y # ys) = x @ sep @ join_with sep (y # ys)"

subsection \<open>runPreparedReply\<close>

text \<open>
  \<^verbatim>\<open>resolveDefaultThinkingLevel\<close> of the model selection state on its first call:
  what \<^verbatim>\<open>resolveThinkingDefault\<close> gives for the model, else the agent's
  \<^verbatim>\<open>thinkingDefault\<close>, else \<^verbatim>\<open>off\<close>.
\<close>

definition resolveDefaultThinkingLevel :: "string option \<Rightarrow> string option \<Rightarrow> string" where
  "resolveDefaultThinkingLevel resolved thinkingDefault =
     (case resolved of
        Some l \<Rightarrow> l
      | None \<Rightarrow> (case thinkingDefault of Some l \<Rightarrow> l | None \<Rightarrow> ''off''))"

text \<open>
  What \<^verbatim>\<open>runPreparedReply\<close> ends in: a reply of its own, or the call of
  \<^verbatim>\<open>runReplyAgent\<close> with a command body and a thinking level.
\<close>

datatype outcome = Reply string | RunReplyAgent string string

text \<open>
  The thinking level of the run, with the command body that is left (lines 254 to
  264): without a level from the caller the first word of the body counts when it
  is a level, \<^verbatim>\<open>xhigh\<close> only when the model supports it; without any level the default
  of the model is taken.
\<close>

definition resolve_think_level ::
  "think_deps \<Rightarrow> string \<Rightarrow> string \<Rightarrow> string option \<Rightarrow> string \<Rightarrow> string option \<Rightarrow> string option \<Rightarrow>
   string \<times> string" where
  "resolve_think_level deps provider model resolvedThinkLevel prefixedCommandBody
       resolvedDefault thinkingDefault =
     (let inline =
            (if \<not> truthy_str resolvedThinkLevel \<and> prefixedCommandBody \<noteq> [] then
               (case split_ws prefixedCommandBody of
                  [] \<Rightarrow> (resolvedThinkLevel, prefixedCommandBody)
                | first # others \<Rightarrow>
                    let maybeLevel = normalizeThinkLevel deps first
                    in if truthy_str maybeLevel
                          \<and> (maybeLevel \<noteq> Some ''xhigh'' \<or> supportsXHighThinking deps provider model)
                       then (maybeLevel, trim (join_with '' '' others))
                       else (resolvedThinkLevel, prefixedCommandBody))
             else (resolvedThinkLevel, prefixedCommandBody))
      in (if truthy_str (fst inline) then or_default (fst inline) []
          else resolveDefaultThinkingLevel resolvedDefault thinkingDefault,
          snd inline))"

text \<open>\<^verbatim>\<open>explicitThink\<close>: the message carries a thinking directive with a level.\<close>

definition explicitThink :: "directives \<Rightarrow> bool" where
  "explicitThink dirs = (hasThinkDirective dirs \<and> thinkLevel dirs \<noteq> None)"

text \<open>
  \<^verbatim>\<open>runPreparedReply\<close> from the resolution of the thinking level on (line 254 to the
  end). Its inputs are the values the function holds at that point: the directives,
  the provider and the model, the level resolved by the caller, the command body,
  what \<^verbatim>\<open>resolveThinkingDefault\<close> and the agent configuration give as default, and
  the session record with the store object and the store path. The result is the
  outcome with the record and the store object as the function leaves them, or
  the exception of \<^verbatim>\<open>updateSessionStore\<close>. The typing indicator and the queue
  settings handed to \<^verbatim>\<open>runReplyAgent\<close> are outside the model.
\<close>

definition runPreparedReply ::
  "env \<Rightarrow> think_deps \<Rightarrow> directives \<Rightarrow> string \<Rightarrow> string \<Rightarrow> string option \<Rightarrow> string \<Rightarrow>
   string option \<Rightarrow> string option \<Rightarrow> entry option \<Rightarrow> store option \<Rightarrow> string \<Rightarrow> string option \<Rightarrow>
   world \<Rightarrow> (error + outcome \<times> entry option \<times> store option) \<times> world" where
  "runPreparedReply en deps dirs provider model resolvedThinkLevel prefixedCommandBody
       resolvedDefault thinkingDefault sessionEntry sessionStore sessionKey storePath w =
     (case resolve_think_level deps provider model resolvedThinkLevel prefixedCommandBody
             resolvedDefault thinkingDefault of
        (level, commandBody) \<Rightarrow>
          if level = ''xhigh'' \<and> \<not> supportsXHighThinking deps provider model then
            if explicitThink dirs then
              (Inr (Reply (''Thinking level \"xhigh\" is only supported for ''
                             @ formatXHighModelHint deps
                             @ ''. Use /think high or switch to one of those models.''),
                    sessionEntry, sessionStore), w)
            else
              (case (sessionEntry, sessionStore) of
                 (Some e, Some st) \<Rightarrow>
                   if sessionKey \<noteq> [] \<and> field e ''thinkingLevel'' = Val (JStr ''xhigh'') then
                     let e' = e(''thinkingLevel'' \<mapsto> Val (JStr ''high''),
                                ''updatedAt'' \<mapsto> Val (JNum (clock w)));
                         st' = st(sessionKey \<mapsto> Entry e')
                     in if truthy_str storePath then
                          (case updateSessionStore en (or_default storePath [])
                                  (\<lambda>now s. Inr ((), s(sessionKey \<mapsto> Entry e'))) w of
                             (Inl err, w') \<Rightarrow> (Inl err, w')
                           | (Inr u, w') \<Rightarrow>
                               (Inr (RunReplyAgent commandBody ''high'', Some e', Some st'), w'))
                        else (Inr (RunReplyAgent commandBody ''high'', Some e', Some st'), w)
                   else (Inr (RunReplyAgent commandBody ''high'', sessionEntry, sessionStore), w)
               | _ \<Rightarrow> (Inr (RunReplyAgent commandBody ''high'', sessionEntry, sessionStore), w))
          else (Inr (RunReplyAgent commandBody level, sessionEntry, sessionStore), w))"

subsection \<open>handleDirectiveOnly\<close>

text \<open>
  The result of \<^verbatim>\<open>resolveModelSelectionFromDirective\<close> and the parameters of a call.
  What the helpers outside the sources return for the call is part of it:
  \<open>modelInfo\<close> (\<^verbatim>\<open>maybeHandleModelDirectiveInfo\<close>), \<open>modelResolution\<close>, \<open>queueAck\<close>
  (\<^verbatim>\<open>maybeHandleQueueDirective\<close>), \<open>runtimeIsSandboxed\<close> and the text of
  \<^verbatim>\<open>formatElevatedUnavailableText\<close>. A reply is its text.
\<close>

record model_resolution =
  errorText :: "string option"
  modelSelection :: "selection option"
  profileOverride :: "string option"

record directive_call =
  directives :: directives
  elevatedEnabled :: bool
  elevatedAllowed :: bool
  provider :: string
  model :: string
  currentThinkLevel :: "string option"
  currentVerboseLevel :: "string option"
  currentReasoningLevel :: "string option"
  currentElevatedLevel :: "string option"
  runtimeIsSandboxed :: bool
  modelInfo :: "string option"
  modelResolution :: model_resolution
  queueAck :: "string option"
  elevatedUnavailableText :: string

definition resolvedProvider :: "directive_call \<Rightarrow> string" where
  "resolvedProvider c =
     (case modelSelection (modelResolution c) of None \<Rightarrow> provider c | Some s \<Rightarrow> sel_provider s)"

definition resolvedModel :: "directive_call \<Rightarrow> string" where
  "resolvedModel c =
     (case modelSelection (modelResolution c) of None \<Rightarrow> model c | Some s \<Rightarrow> sel_model s)"

definition shouldHintDirectRuntime :: "directive_call \<Rightarrow> bool" where
  "shouldHintDirectRuntime c = (hasElevatedDirective (directives c) \<and> \<not> runtimeIsSandboxed c)"

text \<open>
  The replies that come before the check of \<^verbatim>\<open>xhigh\<close>: the model information, a
  model that cannot be resolved, a level directive without a level (a query of the
  current level, or an unrecognised level), elevated mode that is unavailable, and
  the answer to a queue directive. \<open>None\<close>: the function goes on.
\<close>

definition level_query ::
  "bool \<Rightarrow> string option \<Rightarrow> string option \<Rightarrow> string \<Rightarrow> string \<Rightarrow> string option" where
  "level_query has level raw current unrecognised =
     (if has \<and> \<not> truthy_str level
      then Some (if \<not> truthy_str raw then current else unrecognised)
      else None)"

definition early_reply :: "think_deps \<Rightarrow> directive_call \<Rightarrow> string option" where
  "early_reply deps c =
     (let d = directives c;
          levels = formatThinkingLevels deps (resolvedProvider c) (resolvedModel c);
          think = level_query (hasThinkDirective d) (thinkLevel d) (rawThinkLevel d)
                    (withOptions deps
                       (''Current thinking level: '' @ or_default (currentThinkLevel c) ''off'' @ ''.'')
                       levels)
                    (''Unrecognized thinking level \"'' @ or_default (rawThinkLevel d) []
                       @ ''\". Valid levels: '' @ levels @ ''.'');
          verbose = level_query (hasVerboseDirective d) (verboseLevel d) (rawVerboseLevel d)
                      (withOptions deps
                         (''Current verbose level: '' @ or_default (currentVerboseLevel c) ''off'' @ ''.'')
                         ''on, off'')
                      (''Unrecognized verbose level \"'' @ or_default (rawVerboseLevel d) []
                         @ ''\". Valid levels: off, on.'');
          reasoning = level_query (hasReasoningDirective d) (reasoningLevel d) (rawReasoningLevel d)
                        (withOptions deps
                           (''Current reasoning level: '' @ or_default (currentReasoningLevel c) ''off''
                              @ ''.'')
                           ''on, off, stream'')
                        (''Unrecognized reasoning level \"'' @ or_default (rawReasoningLevel d) []
                           @ ''\". Valid levels: on, off, stream.'');
          elevated = level_query (hasElevatedDirective d) (elevatedLevel d) (rawElevatedLevel d)
                       (if \<not> elevatedEnabled c \<or> \<not> elevatedAllowed c then elevatedUnavailableText c
                        else join_with [CHR 0x0A]
                               (filter (\<lambda>line. line \<noteq> [])
                                  (withOptions deps
                                     (''Current elevated level: ''
                                        @ or_default (currentElevatedLevel c) ''off'' @ ''.'')
                                     ''on, off''
                                   # (if shouldHintDirectRuntime c
                                      then [formatElevatedRuntimeHint deps] else []))))
                       (''Unrecognized elevated level \"'' @ or_default (rawElevatedLevel d) []
                          @ ''\". Valid levels: off, on.'')
      in if modelInfo c \<noteq> None then modelInfo c
         else if truthy_str (errorText (modelResolution c)) then errorText (modelResolution c)
         else if think \<noteq> None then think
         else if verbose \<noteq> None then verbose
         else if reasoning \<noteq> None then reasoning
         else if elevated \<noteq> None then elevated
         else if hasElevatedDirective d \<and> (\<not> elevatedEnabled c \<or> \<not> elevatedAllowed c)
           then Some (elevatedUnavailableText c)
         else queueAck c)"

text \<open>
  \<^verbatim>\<open>nextThinkLevel\<close> and \<^verbatim>\<open>shouldDowngradeXHigh\<close>: without a thinking directive the level
  of the session record, else the current level, is \<^verbatim>\<open>xhigh\<close> and the model does not
  support it.
\<close>

definition nextThinkLevel :: "directive_call \<Rightarrow> entry option \<Rightarrow> jsval" where
  "nextThinkLevel c sessionEntry =
     (let given = (\<lambda>x. case x of None \<Rightarrow> Undefined | Some l \<Rightarrow> Val (JStr l))
      in if hasThinkDirective (directives c) then given (thinkLevel (directives c))
         else (case field (case sessionEntry of None \<Rightarrow> Map.empty | Some e \<Rightarrow> e) ''thinkingLevel'' of
                 Undefined \<Rightarrow> given (currentThinkLevel c)
               | Val JNull \<Rightarrow> given (currentThinkLevel c)
               | v \<Rightarrow> v))"

definition shouldDowngradeXHigh :: "think_deps \<Rightarrow> directive_call \<Rightarrow> entry option \<Rightarrow> bool" where
  "shouldDowngradeXHigh deps c sessionEntry =
     (\<not> hasThinkDirective (directives c)
      \<and> nextThinkLevel c sessionEntry = Val (JStr ''xhigh'')
      \<and> \<not> supportsXHighThinking deps (resolvedProvider c) (resolvedModel c))"

text \<open>
  The changes to the session record (lines 622 to 677), in the order of the source;
  \<open>now\<close> is \<^verbatim>\<open>Date.now()\<close>. The system events enqueued after the store is written
  (\<^verbatim>\<open>enqueueSystemEvent\<close>) are outside the model.
\<close>

definition set_level :: "string \<Rightarrow> bool \<Rightarrow> string option \<Rightarrow> entry \<Rightarrow> entry" where
  "set_level name has level e =
     (if has \<and> truthy_str level then
        (if level = Some ''off'' then e(name := None)
         else e(name \<mapsto> Val (JStr (or_default level []))))
      else e)"

definition set_opt :: "string \<Rightarrow> jsval option \<Rightarrow> entry \<Rightarrow> entry" where
  "set_opt name v e = (case v of None \<Rightarrow> e | Some x \<Rightarrow> e(name \<mapsto> x))"

definition apply_model_selection :: "directive_call \<Rightarrow> entry \<Rightarrow> entry" where
  "apply_model_selection c e =
     (case modelSelection (modelResolution c) of
        None \<Rightarrow> e
      | Some s \<Rightarrow>
          let e1 = (if sel_isDefault s then e(''providerOverride'' := None, ''modelOverride'' := None)
                    else e(''providerOverride'' \<mapsto> Val (JStr (sel_provider s)),
                           ''modelOverride'' \<mapsto> Val (JStr (sel_model s))))
          in if truthy_str (profileOverride (modelResolution c))
             then e1(''authProfileOverride'' \<mapsto>
                       Val (JStr (or_default (profileOverride (modelResolution c)) [])))
             else if hasModelDirective (directives c) then e1(''authProfileOverride'' := None)
             else e1)"

definition apply_queue :: "directives \<Rightarrow> entry \<Rightarrow> entry" where
  "apply_queue d e =
     (if hasQueueDirective d \<and> queueReset d then
        e(''queueMode'' := None, ''queueDebounceMs'' := None, ''queueCap'' := None,
          ''queueDrop'' := None)
      else if hasQueueDirective d then
        set_opt ''queueDrop''
          (if truthy_str (dropPolicy d) then map_option (\<lambda>s. Val (JStr s)) (dropPolicy d) else None)
          (set_opt ''queueCap'' (map_option (\<lambda>n. Val (JNum n)) (cap d))
             (set_opt ''queueDebounceMs'' (map_option (\<lambda>n. Val (JNum n)) (debounceMs d))
                (set_opt ''queueMode''
                   (if truthy_str (queueMode d) then map_option (\<lambda>s. Val (JStr s)) (queueMode d)
                    else None)
                   e)))
      else e)"

definition apply_directives ::
  "think_deps \<Rightarrow> directive_call \<Rightarrow> bool \<Rightarrow> int \<Rightarrow> entry \<Rightarrow> entry" where
  "apply_directives deps c downgrade now e =
     (let d = directives c;
          e1 = set_level ''thinkingLevel'' (hasThinkDirective d) (thinkLevel d) e;
          e2 = (if downgrade then e1(''thinkingLevel'' \<mapsto> Val (JStr ''high'')) else e1);
          e3 = (if hasVerboseDirective d \<and> truthy_str (verboseLevel d)
                then applyVerboseOverride deps e2 (or_default (verboseLevel d) []) else e2);
          e4 = set_level ''reasoningLevel'' (hasReasoningDirective d) (reasoningLevel d) e3;
          e5 = (if hasElevatedDirective d \<and> truthy_str (elevatedLevel d)
                then e4(''elevatedLevel'' \<mapsto> Val (JStr (or_default (elevatedLevel d) []))) else e4);
          e6 = apply_model_selection c e5;
          e7 = apply_queue d e6
      in e7(''updatedAt'' \<mapsto> Val (JNum now)))"

text \<open>The acknowledgement (lines 709 to 774): \<open>None\<close> is \<^verbatim>\<open>undefined\<close>.\<close>

definition downgrade_note :: "directive_call \<Rightarrow> string" where
  "downgrade_note c =
     ''Thinking level set to high (xhigh not supported for ''
       @ resolvedProvider c @ ''/'' @ resolvedModel c @ '').''"

definition ack_parts :: "think_deps \<Rightarrow> directive_call \<Rightarrow> bool \<Rightarrow> string list" where
  "ack_parts deps c downgrade =
     (let d = directives c;
          ack = formatDirectiveAck deps
      in (if hasThinkDirective d \<and> truthy_str (thinkLevel d)
          then [if thinkLevel d = Some ''off'' then ''Thinking disabled.''
                else ''Thinking level set to '' @ or_default (thinkLevel d) [] @ ''.'']
          else [])
         @ (if hasVerboseDirective d \<and> truthy_str (verboseLevel d)
            then [if verboseLevel d = Some ''off'' then ack ''Verbose logging disabled.''
                  else ack ''Verbose logging enabled.'']
            else [])
         @ (if hasReasoningDirective d \<and> truthy_str (reasoningLevel d)
            then [if reasoningLevel d = Some ''off'' then ack ''Reasoning visibility disabled.''
                  else if reasoningLevel d = Some ''stream''
                    then ack ''Reasoning stream enabled (Telegram only).''
                  else ack ''Reasoning visibility enabled.'']
            else [])
         @ (if hasElevatedDirective d \<and> truthy_str (elevatedLevel d)
            then (if elevatedLevel d = Some ''off'' then ack ''Elevated mode disabled.''
                  else ack ''Elevated mode enabled.'')
                 # (if shouldHintDirectRuntime c then [formatElevatedRuntimeHint deps] else [])
            else [])
         @ (if downgrade then [downgrade_note c] else [])
         @ (case modelSelection (modelResolution c) of
              None \<Rightarrow> []
            | Some s \<Rightarrow>
                let label = sel_provider s @ ''/'' @ sel_model s;
                    labelWithAlias = (if truthy_str (sel_alias s)
                                      then or_default (sel_alias s) [] @ '' ('' @ label @ '')''
                                      else label)
                in (if sel_isDefault s then ''Model reset to default ('' @ labelWithAlias @ '').''
                    else ''Model set to '' @ labelWithAlias @ ''.'')
                   # (if truthy_str (profileOverride (modelResolution c))
                      then [''Auth profile set to ''
                              @ or_default (profileOverride (modelResolution c)) [] @ ''.'']
                      else []))
         @ (if hasQueueDirective d \<and> truthy_str (queueMode d)
            then [ack (''Queue mode set to '' @ or_default (queueMode d) [] @ ''.'')]
            else if hasQueueDirective d \<and> queueReset d then [ack ''Queue mode reset to default.'']
            else [])
         @ (case debounceMs d of
              None \<Rightarrow> []
            | Some n \<Rightarrow> if hasQueueDirective d
                        then [ack (''Queue debounce set to '' @ numberText deps n @ ''ms.'')] else [])
         @ (case cap d of
              None \<Rightarrow> []
            | Some n \<Rightarrow> if hasQueueDirective d
                        then [ack (''Queue cap set to '' @ numberText deps n @ ''.'')] else [])
         @ (if hasQueueDirective d \<and> truthy_str (dropPolicy d)
            then [ack (''Queue drop set to '' @ or_default (dropPolicy d) [] @ ''.'')]
            else []))"

definition directive_ack :: "think_deps \<Rightarrow> directive_call \<Rightarrow> bool \<Rightarrow> string option" where
  "directive_ack deps c downgrade =
     (let ack = trim (join_with '' '' (ack_parts deps c downgrade))
      in if ack = [] \<and> hasStatusDirective (directives c) then None
         else Some (if ack = [] then ''OK.'' else ack))"

text \<open>
  The result is the reply with the session record and the store object as the
  function leaves them, or the exception of \<^verbatim>\<open>updateSessionStore\<close>.
\<close>

definition handleDirectiveOnly ::
  "env \<Rightarrow> think_deps \<Rightarrow> directive_call \<Rightarrow> entry option \<Rightarrow> store option \<Rightarrow> string \<Rightarrow>
   string option \<Rightarrow> world \<Rightarrow> (error + string option \<times> entry option \<times> store option) \<times> world" where
  "handleDirectiveOnly en deps c sessionEntry sessionStore sessionKey storePath w =
     (case early_reply deps c of
        Some r \<Rightarrow> (Inr (Some r, sessionEntry, sessionStore), w)
      | None \<Rightarrow>
          if hasThinkDirective (directives c) \<and> thinkLevel (directives c) = Some ''xhigh''
             \<and> \<not> supportsXHighThinking deps (resolvedProvider c) (resolvedModel c)
          then (Inr (Some (''Thinking level \"xhigh\" is only supported for ''
                             @ formatXHighModelHint deps @ ''.''),
                     sessionEntry, sessionStore), w)
          else
            let downgrade = shouldDowngradeXHigh deps c sessionEntry;
                reply = directive_ack deps c downgrade
            in (case (sessionEntry, sessionStore) of
                  (Some e, Some st) \<Rightarrow>
                    if sessionKey \<noteq> [] then
                      let e' = apply_directives deps c downgrade (clock w) e;
                          st' = st(sessionKey \<mapsto> Entry e')
                      in if truthy_str storePath then
                           (case updateSessionStore en (or_default storePath [])
                                   (\<lambda>now s. Inr ((), s(sessionKey \<mapsto> Entry e'))) w of
                              (Inl err, w') \<Rightarrow> (Inl err, w')
                            | (Inr u, w') \<Rightarrow> (Inr (reply, Some e', Some st'), w'))
                         else (Inr (reply, Some e', Some st'), w)
                    else (Inr (reply, sessionEntry, sessionStore), w)
                | _ \<Rightarrow> (Inr (reply, sessionEntry, sessionStore), w)))"

subsection \<open>What is said about an unsupported level\<close>

text \<open>
  The thinking level a store file holds for a session, the condition that the
  session record asks for \<^verbatim>\<open>xhigh\<close>, and what is assumed of \<^verbatim>\<open>applyVerboseOverride\<close>:
  it leaves the thinking level of the record alone.
\<close>

definition persisted_level :: "world \<Rightarrow> string \<Rightarrow> string \<Rightarrow> jsval option" where
  "persisted_level w path k =
     (case read_store_file w path k of Some (Entry e) \<Rightarrow> e ''thinkingLevel'' | _ \<Rightarrow> None)"

definition stored_xhigh :: "entry \<Rightarrow> bool" where
  "stored_xhigh e = (field e ''thinkingLevel'' = Val (JStr ''xhigh''))"

definition keeps_thinking_level :: "think_deps \<Rightarrow> bool" where
  "keeps_thinking_level deps =
     (\<forall>e l. applyVerboseOverride deps e l ''thinkingLevel'' = e ''thinkingLevel'')"

subsection \<open>A model without \<^verbatim>\<open>xhigh\<close>\<close>

text \<open>
  Helpers for which only \<^verbatim>\<open>openai/gpt-5.2\<close> supports \<^verbatim>\<open>xhigh\<close>, a message without
  directives, the message \<^verbatim>\<open>/think xhigh\<close>, and a store whose main session asks for
  \<^verbatim>\<open>xhigh\<close>.
\<close>

definition plain_deps :: think_deps where
  "plain_deps =
     \<lparr>supportsXHighThinking = (\<lambda>p m. p = ''openai'' \<and> m = ''gpt-5.2''),
      formatXHighModelHint = ''openai/gpt-5.2'',
      formatThinkingLevels = (\<lambda>p m. ''off, minimal, low, medium, high''),
      normalizeThinkLevel =
        (\<lambda>s. if s \<in> set [''off'', ''minimal'', ''low'', ''medium'', ''high'', ''xhigh''] then Some s
              else None),
      withOptions = (\<lambda>line options. line @ '' Options: '' @ options @ ''.''),
      formatDirectiveAck = (\<lambda>s. s),
      formatElevatedRuntimeHint = ''Runtime is direct.'',
      applyVerboseOverride = (\<lambda>e l. e(''verboseLevel'' \<mapsto> Val (JStr l))),
      numberText = (\<lambda>n. ''0'')\<rparr>"

definition no_directives :: directives where
  "no_directives =
     \<lparr>hasThinkDirective = False, thinkLevel = None, rawThinkLevel = None,
      hasVerboseDirective = False, verboseLevel = None, rawVerboseLevel = None,
      hasReasoningDirective = False, reasoningLevel = None, rawReasoningLevel = None,
      hasElevatedDirective = False, elevatedLevel = None, rawElevatedLevel = None,
      hasModelDirective = False, hasStatusDirective = False, hasQueueDirective = False,
      queueReset = False, queueMode = None, debounceMs = None, cap = None, dropPolicy = None\<rparr>"

definition think_xhigh :: directives where
  "think_xhigh =
     no_directives\<lparr>hasThinkDirective := True, thinkLevel := Some ''xhigh'',
                    rawThinkLevel := Some ''xhigh''\<rparr>"

definition claude_call :: "directives \<Rightarrow> directive_call" where
  "claude_call d =
     \<lparr>directives = d, elevatedEnabled = False, elevatedAllowed = False,
      provider = ''anthropic'', model = ''claude-opus-4-5'',
      currentThinkLevel = None, currentVerboseLevel = None, currentReasoningLevel = None,
      currentElevatedLevel = None, runtimeIsSandboxed = False, modelInfo = None,
      modelResolution = \<lparr>errorText = None, modelSelection = None, profileOverride = None\<rparr>,
      queueAck = None, elevatedUnavailableText = ''Elevated mode is unavailable.''\<rparr>"

definition xhigh_entry :: entry where
  "xhigh_entry = Map.empty(''sessionId'' \<mapsto> Val (JStr ''s-1''),
                           ''updatedAt'' \<mapsto> Val (JNum 1000),
                           ''thinkingLevel'' \<mapsto> Val (JStr ''xhigh''))"

definition high_entry :: entry where
  "high_entry = Map.empty(''sessionId'' \<mapsto> Val (JStr ''s-1''),
                          ''updatedAt'' \<mapsto> Val (JNum 2000),
                          ''thinkingLevel'' \<mapsto> Val (JStr ''high''))"

definition xhigh_store :: store where
  "xhigh_store = Map.empty(''agent:main:main'' \<mapsto> Entry xhigh_entry)"

definition xhigh_world :: world where
  "xhigh_world =
     \<lparr>files = Map.empty(''sessions.json'' \<mapsto>
                \<lparr>content = Parsed_object xhigh_store, mtimeMs = 1000\<rparr>),
      clock = 2000,
      cache = Map.empty\<rparr>"

section \<open>initSessionState\<close>

text \<open>JavaScript's \<^verbatim>\<open>a || b\<close> and \<^verbatim>\<open>a ?? b\<close> on property values.\<close>

fun truthy :: "jsval \<Rightarrow> bool" where
  "truthy Undefined = False"
| "truthy (Val j) = truthy_json j"

definition or_js :: "jsval \<Rightarrow> jsval \<Rightarrow> jsval" where
  "or_js a b = (if truthy a then a else b)"

definition nullish :: "jsval \<Rightarrow> jsval \<Rightarrow> jsval" where
  "nullish a b = (if a = Undefined \<or> a = Val JNull then b else a)"

text \<open>\<^verbatim>\<open>{ ...a, ...b }\<close>: the properties of \<open>b\<close>, also those that are \<^verbatim>\<open>undefined\<close>, over those of \<open>a\<close>.\<close>

definition spread :: "entry \<Rightarrow> entry \<Rightarrow> entry" where
  "spread a b = a ++ b"

subsection \<open>The reset triggers\<close>

text \<open>
  The loop over the configured reset triggers: \<open>None\<close> when no trigger matches,
  \<open>Some body\<close> (the body with the trigger stripped) when one does. An unauthorised sender
  ends the loop at the first non-empty trigger.
\<close>

fun reset_scan :: "bool \<Rightarrow> string \<Rightarrow> string \<Rightarrow> string list \<Rightarrow> string option" where
  "reset_scan resetAuthorized trimmedBody strippedForReset [] = None"
| "reset_scan resetAuthorized trimmedBody strippedForReset (trigger # rest) =
     (if trigger = [] then reset_scan resetAuthorized trimmedBody strippedForReset rest
      else if \<not> resetAuthorized then None
      else if toLowerCase trimmedBody = toLowerCase trigger
              \<or> toLowerCase strippedForReset = toLowerCase trigger then Some []
      else if startsWith (toLowerCase trimmedBody) (toLowerCase trigger @ '' '')
              \<or> startsWith (toLowerCase strippedForReset) (toLowerCase trigger @ '' '')
        then Some (trimStart (drop (length trigger) strippedForReset))
      else reset_scan resetAuthorized trimmedBody strippedForReset rest)"

subsection \<open>Reuse or a new session\<close>

text \<open>
  The branch both versions of \<^verbatim>\<open>initSessionState\<close> share (part_004 lines 174 to 188,
  session.ts lines 521 to 536): a fresh record that no trigger resets is reused with its
  flags and persisted overrides, anything else gets a newly drawn id and cleared flags.
\<close>

record decision =
  d_sessionId :: jsval
  d_isNewSession :: bool
  d_systemSent :: jsval
  d_abortedLastRun :: jsval
  d_persisted :: entry

definition persisted_fields :: "string list" where
  "persisted_fields =
     [''thinkingLevel'', ''verboseLevel'', ''reasoningLevel'', ''ttsAuto'',
      ''modelOverride'', ''providerOverride'']"

definition decide_session :: "bool \<Rightarrow> bool \<Rightarrow> slot option \<Rightarrow> string \<Rightarrow> decision" where
  "decide_session isNewSession freshEntry entry uuid =
     (if \<not> isNewSession \<and> freshEntry then
        \<lparr>d_sessionId = field (props_opt entry) ''sessionId'',
         d_isNewSession = False,
         d_systemSent = nullish (field (props_opt entry) ''systemSent'') (Val (JBool False)),
         d_abortedLastRun = nullish (field (props_opt entry) ''abortedLastRun'') (Val (JBool False)),
         d_persisted = (\<lambda>k. if k \<in> set persisted_fields
                               then Some (field (props_opt entry) k) else None)\<rparr>
      else
        \<lparr>d_sessionId = Val (JStr uuid),
         d_isNewSession = True,
         d_systemSent = Val (JBool False),
         d_abortedLastRun = Val (JBool False),
         d_persisted = (\<lambda>k. if k \<in> set persisted_fields then Some Undefined else None)\<rparr>)"

subsection \<open>Freshness by idle time (part_004)\<close>


definition freshEntry :: "int \<Rightarrow> slot option \<Rightarrow> int \<Rightarrow> bool" where
  "freshEntry now entry idle =
     (case entry of
        None \<Rightarrow> False
      | Some e \<Rightarrow>
          truthy_slot e \<and>
          (case field (props e) ''updatedAt'' of
             Val (JNum updatedAt) \<Rightarrow> now - updatedAt \<le> idle
           | _ \<Rightarrow> False))"


subsection \<open>initSessionState (session.ts)\<close>

text \<open>
  What \<^verbatim>\<open>initSessionState\<close> takes from the message context and the configuration
  through code outside the sources: the resolved session key and store path, the reset
  triggers and whether the sender may reset, the command body and its stripped form,
  the parent session key (\<open>None\<close> when empty), the routing fields of the message, the
  thread label, the UUIDs drawn, and as functions the freshness verdict of
  \<^verbatim>\<open>evaluateSessionFreshness\<close> under the resolved reset policy (given the record's
  \<^verbatim>\<open>updatedAt\<close> and now), \<^verbatim>\<open>normalizeSessionDeliveryFields\<close>,
  \<^verbatim>\<open>deriveSessionMetaPatch\<close>, the fork and the merge of a parent transcript (each
  yielding a session id and file, or nothing), and \<^verbatim>\<open>resolveSessionTranscriptPath\<close>.
\<close>

record delivery_fields =
  df_deliveryContext :: jsval
  df_lastChannel :: jsval
  df_lastTo :: jsval
  df_lastAccountId :: jsval
  df_lastThreadId :: jsval

record session_ctx =
  sessionKey :: string
  storePath :: string
  resetTriggers :: "string list"
  resetAuthorized :: bool
  commandSource :: string
  strippedForReset :: string
  parentSessionKey :: "string option"
  originatingChannel :: jsval
  originatingTo :: jsval
  ctxTo :: jsval
  accountId :: jsval
  messageThreadId :: jsval
  threadLabel :: "string option"
  uuid :: string
  uuid2 :: string
  evaluateSessionFreshness :: "jsval \<Rightarrow> int \<Rightarrow> bool"
  normalizeSessionDeliveryFields :: "jsval \<Rightarrow> jsval \<Rightarrow> jsval \<Rightarrow> jsval \<Rightarrow> delivery_fields"
  deriveSessionMetaPatch :: "entry \<Rightarrow> entry option"
  forkSessionFromParent :: "slot \<Rightarrow> (string \<times> string) option"
  mergeSessionFromParent :: "slot \<Rightarrow> entry \<Rightarrow> (string \<times> string) option"
  resolveSessionTranscriptPath :: "jsval \<Rightarrow> string"

record init_result =
  r_sessionEntry :: entry
  r_previousSessionEntry :: "entry option"
  r_sessionStore :: store
  r_sessionId :: jsval
  r_isNewSession :: bool
  r_resetTriggered :: bool
  r_systemSent :: jsval
  r_abortedLastRun :: jsval
  r_bodyStripped :: "string option"

text \<open>The object literal of session.ts lines 556 to 588.\<close>

definition build_session_entry ::
  "entry \<Rightarrow> decision \<Rightarrow> int \<Rightarrow> delivery_fields \<Rightarrow> jsval \<Rightarrow> jsval \<Rightarrow> jsval \<Rightarrow> jsval \<Rightarrow> entry" where
  "build_session_entry baseEntry d now df lastChannelRaw lastToRaw lastAccountIdRaw lastThreadIdRaw =
     baseEntry(
       ''sessionId'' \<mapsto> d_sessionId d,
       ''updatedAt'' \<mapsto> Val (JNum now),
       ''systemSent'' \<mapsto> d_systemSent d,
       ''abortedLastRun'' \<mapsto> d_abortedLastRun d,
       ''thinkingLevel'' \<mapsto> nullish (field (d_persisted d) ''thinkingLevel'') (field baseEntry ''thinkingLevel''),
       ''verboseLevel'' \<mapsto> nullish (field (d_persisted d) ''verboseLevel'') (field baseEntry ''verboseLevel''),
       ''reasoningLevel'' \<mapsto> nullish (field (d_persisted d) ''reasoningLevel'') (field baseEntry ''reasoningLevel''),
       ''ttsAuto'' \<mapsto> nullish (field (d_persisted d) ''ttsAuto'') (field baseEntry ''ttsAuto''),
       ''responseUsage'' \<mapsto> field baseEntry ''responseUsage'',
       ''modelOverride'' \<mapsto> nullish (field (d_persisted d) ''modelOverride'') (field baseEntry ''modelOverride''),
       ''providerOverride'' \<mapsto> nullish (field (d_persisted d) ''providerOverride'') (field baseEntry ''providerOverride''),
       ''sendPolicy'' \<mapsto> field baseEntry ''sendPolicy'',
       ''queueMode'' \<mapsto> field baseEntry ''queueMode'',
       ''queueDebounceMs'' \<mapsto> field baseEntry ''queueDebounceMs'',
       ''queueCap'' \<mapsto> field baseEntry ''queueCap'',
       ''queueDrop'' \<mapsto> field baseEntry ''queueDrop'',
       ''displayName'' \<mapsto> field baseEntry ''displayName'',
       ''chatType'' \<mapsto> field baseEntry ''chatType'',
       ''channel'' \<mapsto> field baseEntry ''channel'',
       ''groupId'' \<mapsto> field baseEntry ''groupId'',
       ''subject'' \<mapsto> field baseEntry ''subject'',
       ''groupChannel'' \<mapsto> field baseEntry ''groupChannel'',
       ''space'' \<mapsto> field baseEntry ''space'',
       ''deliveryContext'' \<mapsto> df_deliveryContext df,
       ''lastChannel'' \<mapsto> nullish (df_lastChannel df) lastChannelRaw,
       ''lastTo'' \<mapsto> nullish (df_lastTo df) lastToRaw,
       ''lastAccountId'' \<mapsto> nullish (df_lastAccountId df) lastAccountIdRaw,
       ''lastThreadId'' \<mapsto> nullish (df_lastThreadId df) lastThreadIdRaw)"

text \<open>
  session.ts lines 589 to 604: the meta patch, the default chat type and the thread
  label.
\<close>

definition label_session_entry :: "session_ctx \<Rightarrow> entry \<Rightarrow> entry" where
  "label_session_entry c e0 =
     (let e1 = (case deriveSessionMetaPatch c e0 of None \<Rightarrow> e0 | Some metaPatch \<Rightarrow> spread e0 metaPatch);
          e2 = (if \<not> truthy (field e1 ''chatType'') then e1(''chatType'' \<mapsto> Val (JStr ''direct'')) else e1)
      in case threadLabel c of
           None \<Rightarrow> e2
         | Some l \<Rightarrow> if trim l = [] then e2 else e2(''displayName'' \<mapsto> Val (JStr (trim l))))"

text \<open>
  session.ts lines 605 to 644: with a parent session key other than the session's own
  that holds a record, a new session is forked from the parent and a reused one is
  merged with it once; either yields a session id and file, or nothing.
\<close>

definition link_parent :: "session_ctx \<Rightarrow> store \<Rightarrow> bool \<Rightarrow> entry \<Rightarrow> (string \<times> string) option" where
  "link_parent c sessionStore isNewSession e =
     (case parentSessionKey c of
        None \<Rightarrow> None
      | Some pk \<Rightarrow>
          if pk \<noteq> sessionKey c \<and> present sessionStore pk then
            (case sessionStore pk of
               None \<Rightarrow> None
             | Some parentEntry \<Rightarrow>
                 if isNewSession then forkSessionFromParent c parentEntry
                 else mergeSessionFromParent c parentEntry e)
          else None)"

text \<open>
  session.ts lines 622 to 656: the linked id and file, the transcript path, and the
  compaction counters of a new session.
\<close>

definition complete_session_entry ::
  "session_ctx \<Rightarrow> bool \<Rightarrow> (string \<times> string) option \<Rightarrow> entry \<Rightarrow> entry" where
  "complete_session_entry c isNewSession linked e3 =
     (let e4 = (case linked of
                  None \<Rightarrow> e3
                | Some (sid, sfile) \<Rightarrow>
                    e3(''sessionId'' \<mapsto> Val (JStr sid), ''sessionFile'' \<mapsto> Val (JStr sfile)));
          e5 = (if \<not> truthy (field e4 ''sessionFile'')
                then e4(''sessionFile'' \<mapsto> Val (JStr (resolveSessionTranscriptPath c (field e4 ''sessionId''))))
                else e4)
      in if isNewSession
         then e5(''compactionCount'' \<mapsto> Val (JNum 0),
                 ''memoryFlushCompactionCount'' \<mapsto> Undefined,
                 ''memoryFlushAt'' \<mapsto> Undefined)
         else e5)"

text \<open>The mutator of session.ts lines 659 to 662: the new record spread over the stored one.\<close>

definition merge_mutator :: "string \<Rightarrow> entry \<Rightarrow> unit mutator" where
  "merge_mutator key sessionEntry now st =
     Inr ((), st(key \<mapsto> Entry (spread (props_opt (st key)) sessionEntry)))"

definition initSessionState ::
  "env \<Rightarrow> session_ctx \<Rightarrow> world \<Rightarrow> (error + init_result) \<times> world" where
  "initSessionState en c w =
     (case loadSessionStore en (storePath c) False w of
        (sessionStore, w1) \<Rightarrow>
          (let triggered = reset_scan (resetAuthorized c) (trim (commandSource c))
                             (strippedForReset c) (resetTriggers c);
               entry = sessionStore (sessionKey c);
               now = clock w1;
               fresh = (case entry of
                          None \<Rightarrow> False
                        | Some e \<Rightarrow> truthy_slot e \<and>
                                    evaluateSessionFreshness c (field (props e) ''updatedAt'') now);
               d = decide_session (triggered \<noteq> None) fresh entry (uuid c);
               baseEntry = (if d_isNewSession d then Map.empty else props_opt entry);
               lastChannelRaw = or_js (originatingChannel c) (field baseEntry ''lastChannel'');
               lastToRaw = or_js (originatingTo c) (or_js (ctxTo c) (field baseEntry ''lastTo''));
               lastAccountIdRaw = or_js (accountId c) (field baseEntry ''lastAccountId'');
               lastThreadIdRaw = or_js (messageThreadId c) (field baseEntry ''lastThreadId'');
               df = normalizeSessionDeliveryFields c lastChannelRaw lastToRaw lastAccountIdRaw lastThreadIdRaw;
               labelled = label_session_entry c
                            (build_session_entry baseEntry d now df
                               lastChannelRaw lastToRaw lastAccountIdRaw lastThreadIdRaw);
               linked = link_parent c sessionStore (d_isNewSession d) labelled;
               sessionId = (case linked of None \<Rightarrow> d_sessionId d | Some (sid, _) \<Rightarrow> Val (JStr sid));
               sessionEntry = complete_session_entry c (d_isNewSession d) linked labelled;
               sessionStore' = sessionStore(sessionKey c \<mapsto>
                                 Entry (spread (props_opt (sessionStore (sessionKey c))) sessionEntry))
           in case updateSessionStore en (storePath c) (merge_mutator (sessionKey c) sessionEntry) w1 of
                (Inl err, w2) \<Rightarrow> (Inl err, w2)
              | (Inr _, w2) \<Rightarrow>
                  (Inr \<lparr>r_sessionEntry = sessionEntry,
                        r_previousSessionEntry =
                          (case entry of
                             None \<Rightarrow> None
                           | Some e \<Rightarrow> if triggered \<noteq> None \<and> truthy_slot e then Some (props e) else None),
                        r_sessionStore = sessionStore',
                        r_sessionId = nullish sessionId (Val (JStr (uuid2 c))),
                        r_isNewSession = d_isNewSession d,
                        r_resetTriggered = (triggered \<noteq> None),
                        r_systemSent = d_systemSent d,
                        r_abortedLastRun = d_abortedLastRun d,
                        r_bodyStripped = triggered\<rparr>, w2)))"

subsection \<open>A session with persisted overrides, and a reset of it\<close>

definition override_entry :: entry where
  "override_entry = Map.empty(''sessionId'' \<mapsto> Val (JStr ''s-1''),
                              ''updatedAt'' \<mapsto> Val (JNum 1000),
                              ''systemSent'' \<mapsto> Val (JBool True),
                              ''compactionCount'' \<mapsto> Val (JNum 3),
                              ''thinkingLevel'' \<mapsto> Val (JStr ''high''),
                              ''modelOverride'' \<mapsto> Val (JStr ''foo/bar''))"

definition override_world :: world where
  "override_world =
     \<lparr>files = Map.empty(''sessions.json'' \<mapsto>
                \<lparr>content = Parsed_object (Map.empty(''agent:main:main'' \<mapsto> Entry override_entry)),
                 mtimeMs = 1000\<rparr>),
      clock = 2000,
      cache = Map.empty\<rparr>"

text \<open>
  An authorised sender writes \<^verbatim>\<open>/new\<close> to the session \<^verbatim>\<open>agent:main:main\<close>; the record
  counts as fresh, there is no parent session and no meta patch.
\<close>

definition reset_ctx :: session_ctx where
  "reset_ctx =
     \<lparr>sessionKey = ''agent:main:main'', storePath = ''sessions.json'',
      resetTriggers = [''/new'', ''/reset''], resetAuthorized = True,
      commandSource = ''/new'', strippedForReset = ''/new'',
      parentSessionKey = None,
      originatingChannel = Undefined, originatingTo = Undefined, ctxTo = Undefined,
      accountId = Undefined, messageThreadId = Undefined, threadLabel = None,
      uuid = ''s-new'', uuid2 = ''s-other'',
      evaluateSessionFreshness = (\<lambda>updatedAt now. True),
      normalizeSessionDeliveryFields = (\<lambda>channel to account thread.
         \<lparr>df_deliveryContext = Undefined, df_lastChannel = Undefined, df_lastTo = Undefined,
          df_lastAccountId = Undefined, df_lastThreadId = Undefined\<rparr>),
      deriveSessionMetaPatch = (\<lambda>existing. None),
      forkSessionFromParent = (\<lambda>parent. None),
      mergeSessionFromParent = (\<lambda>parent child. None),
      resolveSessionTranscriptPath = (\<lambda>sessionId. ''transcript.jsonl'')\<rparr>"

section \<open>Specification-side notions for the session lifecycle\<close>

text \<open>
  The persisted user overrides a reset must keep, and the condition that the meta patch
  of a message does not touch a field.
\<close>

definition override_fields :: "string list" where
  "override_fields = [''modelOverride'', ''providerOverride'', ''thinkingLevel'', ''verboseLevel'', ''reasoningLevel'']"

definition patch_leaves :: "session_ctx \<Rightarrow> string \<Rightarrow> bool" where
  "patch_leaves c k = (\<forall>e. case deriveSessionMetaPatch c e of None \<Rightarrow> True | Some mp \<Rightarrow> mp k = None)"

section \<open>Properties of the store\<close>

subsection \<open>Paths\<close>

lemma lock_path_neq: "lock_path p \<noteq> p"
  by (simp add: lock_path_def)

lemma tmp_path_neq: "tmp_path en p \<noteq> p"
  by (simp add: tmp_path_def)

lemma tmp_path_neq_lock: "tmp_path en p \<noteq> lock_path p"
proof
  assume "tmp_path en p = lock_path p"
  then have "''.'' @ pid en @ ''.'' @ tmpUuid en @ ''.tmp'' = ''.lock''"
    by (simp add: tmp_path_def lock_path_def)
  then have "last (''.'' @ pid en @ ''.'' @ tmpUuid en @ ''.tmp'') = last ''.lock''"
    by simp
  then show False by simp
qed

lemma clock_writeFile: "clock (writeFile p c w) = clock w"
  by (simp add: writeFile_def)

lemma clock_unlink: "clock (unlink p w) = clock w"
  by (simp add: unlink_def)

subsection \<open>What lock acquisition touches\<close>



subsection \<open>Reading and writing\<close>

lemma load_coherent:
  "cache_coherent w p \<Longrightarrow>
   fst (loadSessionStore en p skip w) = migrate_store (read_store_file w p)"
  by (auto simp: loadSessionStore_def cache_probe_def cache_coherent_def Let_def
        invalidateSessionStoreCache_def read_store_file_def getFileMtimeMs_def
      split: option.splits if_splits sum.splits)

lemma load_skip:
  "loadSessionStore en p True w = (migrate_store (read_store_file w p), w)"
  by (simp add: loadSessionStore_def cache_probe_def)

lemma migrate_entry_spec:
  "legacy_renamed ''provider'' ''channel'' e (migrate_entry e) \<and>
   legacy_renamed ''lastProvider'' ''lastChannel'' e (migrate_entry e) \<and>
   (\<forall>f. f \<notin> {''provider'', ''channel'', ''lastProvider'', ''lastChannel''}
        \<longrightarrow> migrate_entry e f = e f)"
  by (simp add: migrate_entry_def rename_legacy_def legacy_renamed_def field_def)

lemma migrate_entry_valid: "valid_entry e \<Longrightarrow> migrate_entry e = e"
  by (simp add: valid_entry_def migrate_entry_def rename_legacy_def field_def)

lemma strip_entry_valid: "valid_entry e \<Longrightarrow> strip_entry e = e"
  by (auto simp: valid_entry_def strip_entry_def fun_eq_iff split: option.splits jsval.splits)

lemma migrate_store_valid: "valid_store s \<Longrightarrow> migrate_store s = s"
  by (auto simp: valid_store_def migrate_store_def fun_eq_iff migrate_entry_valid
      split: option.splits slot.splits)

lemma stringify_valid: "valid_store s \<Longrightarrow> stringify s = s"
  by (auto simp: valid_store_def stringify_def fun_eq_iff strip_entry_valid
      split: option.splits slot.splits)

lemma save_files:
  "files (saveSessionStoreUnlocked en p st w) =
     ((files w)(p \<mapsto> \<lparr>content = Parsed_object (stringify st), mtimeMs = clock w\<rparr>))
       (tmp_path en p := (if win32 en then files w (tmp_path en p) else None))"
  using tmp_path_neq[of en p]
  by (auto simp: saveSessionStoreUnlocked_def Let_def writeFile_def rename_def unlink_def
        invalidateSessionStoreCache_def fun_eq_iff)

lemma save_cache:
  "cache (saveSessionStoreUnlocked en p st w) = (cache w)(p := None)"
  by (auto simp: saveSessionStoreUnlocked_def Let_def writeFile_def rename_def unlink_def
        invalidateSessionStoreCache_def)


text \<open>An update on a path whose lock marker is absent, unfolded.\<close>

lemma update_lock_free:
  assumes "files w (lock_path p) = None"
  shows "updateSessionStore en p mutator w =
     (let w0 = writeFile (lock_path p) (lock_meta en (clock w)) w;
          st = migrate_store (read_store_file w p)
      in case mutator (clock w) st of
           Inl e \<Rightarrow> (Inl e, unlink (lock_path p) w0)
         | Inr (result, st') \<Rightarrow>
             (Inr result, unlink (lock_path p) (saveSessionStoreUnlocked en p st' w0)))"
proof -
  have rd: "read_store_file (writeFile (lock_path p) c w) p = read_store_file w p" for c
    using lock_path_neq[of p] by (simp add: read_store_file_def writeFile_def)
  show ?thesis
    using assms
    by (simp add: updateSessionStore_def withSessionStoreLock_def acquire_lock.simps
          load_skip rd Let_def clock_writeFile split: sum.splits prod.splits)
qed

lemma unlink_fresh_lock:
  "files w lp = None \<Longrightarrow> unlink lp (writeFile lp c w) = w"
  by (simp add: unlink_def writeFile_def fun_upd_idem)

subsection \<open>C9: what a load returns\<close>

text \<open>
  C9. A load never throws (\<open>loadSessionStore\<close> is total and has no error result: the
  source catches the read and the parse). When the file is absent, unparseable or not an
  object it returns the empty map; on a parsed object it returns the records with the
  legacy \<^verbatim>\<open>provider\<close> and \<^verbatim>\<open>lastProvider\<close> fields renamed to \<^verbatim>\<open>channel\<close> and
  \<^verbatim>\<open>lastChannel\<close>, all other fields and all non-object values as they are. The cache
  is assumed to be the memo it is meant to be.
\<close>

theorem loadSessionStore_contract:
  assumes "cache_coherent w p"
  shows "(case files w p of
            None \<Rightarrow> fst (loadSessionStore en p skip w) = Map.empty
          | Some f \<Rightarrow>
              (case content f of
                 Parsed_object s \<Rightarrow>
                   (\<forall>k. case s k of
                          Some (Entry e) \<Rightarrow>
                            (\<exists>e'. fst (loadSessionStore en p skip w) k = Some (Entry e') \<and>
                                  legacy_renamed ''provider'' ''channel'' e e' \<and>
                                  legacy_renamed ''lastProvider'' ''lastChannel'' e e' \<and>
                                  (\<forall>f. f \<notin> {''provider'', ''channel'', ''lastProvider'', ''lastChannel''}
                                        \<longrightarrow> e' f = e f))
                        | other \<Rightarrow> fst (loadSessionStore en p skip w) k = other)
               | _ \<Rightarrow> fst (loadSessionStore en p skip w) = Map.empty))"
proof -
  have eq: "fst (loadSessionStore en p skip w) = migrate_store (read_store_file w p)"
    using assms by (rule load_coherent)
  show ?thesis
  proof (cases "files w p")
    case None
    then show ?thesis by (simp add: eq read_store_file_def migrate_store_def)
  next
    case (Some f)
    show ?thesis
    proof (cases "content f")
      case (Parsed_object s)
      have "\<And>k. case s k of
                Some (Entry e) \<Rightarrow>
                  (\<exists>e'. migrate_store s k = Some (Entry e') \<and>
                        legacy_renamed ''provider'' ''channel'' e e' \<and>
                        legacy_renamed ''lastProvider'' ''lastChannel'' e e' \<and>
                        (\<forall>f. f \<notin> {''provider'', ''channel'', ''lastProvider'', ''lastChannel''}
                              \<longrightarrow> e' f = e f))
              | other \<Rightarrow> migrate_store s k = other"
        using migrate_entry_spec by (auto simp: migrate_store_def split: option.splits slot.splits)
      moreover have "read_store_file w p = s"
        using Some Parsed_object by (simp add: read_store_file_def)
      ultimately show ?thesis unfolding eq using Some Parsed_object
        by (simp cong: option.case_cong slot.case_cong)
    qed (use Some in \<open>simp_all add: eq read_store_file_def migrate_store_def\<close>)
  qed
qed

theorem loadSessionStore_contract_witness:
  "cache_coherent legacy_world ''sessions.json'' \<and>
   (\<exists>e'. fst (loadSessionStore demo_env ''sessions.json'' False legacy_world) ''agent:main:main''
            = Some (Entry e') \<and>
         e' ''channel'' = Some (Val (JStr ''slack'')) \<and> e' ''provider'' = None \<and>
         e' ''sessionId'' = Some (Val (JStr ''s-1'')))"
proof -
  let ?e = "Map.empty(''sessionId'' \<mapsto> Val (JStr ''s-1''), ''provider'' \<mapsto> Val (JStr ''slack''))"
  let ?s = "Map.empty(''agent:main:main'' \<mapsto> Entry ?e)"
  let ?r = "fst (loadSessionStore demo_env ''sessions.json'' False legacy_world)"
  have coh: "cache_coherent legacy_world ''sessions.json''"
    by (simp add: cache_coherent_def legacy_world_def)
  have fl: "files legacy_world ''sessions.json''
              = Some \<lparr>content = Parsed_object ?s, mtimeMs = 1000\<rparr>"
    by (simp add: legacy_world_def)
  have "\<forall>k. case ?s k of
              Some (Entry e) \<Rightarrow>
                (\<exists>e'. ?r k = Some (Entry e') \<and>
                      legacy_renamed ''provider'' ''channel'' e e' \<and>
                      legacy_renamed ''lastProvider'' ''lastChannel'' e e' \<and>
                      (\<forall>f. f \<notin> {''provider'', ''channel'', ''lastProvider'', ''lastChannel''}
                            \<longrightarrow> e' f = e f))
            | other \<Rightarrow> ?r k = other"
    using loadSessionStore_contract[OF coh, of demo_env False] unfolding fl
    by simp
  from this[THEN spec, of "''agent:main:main''"]
  obtain e' where e': "?r ''agent:main:main'' = Some (Entry e')"
      "legacy_renamed ''provider'' ''channel'' ?e e'"
      "\<forall>f. f \<notin> {''provider'', ''channel'', ''lastProvider'', ''lastChannel''} \<longrightarrow> e' f = ?e f"
    by auto
  from e'(2) have "e' ''channel'' = Some (Val (JStr ''slack'')) \<and> e' ''provider'' = None"
    by (simp add: legacy_renamed_def field_def)
  moreover from e'(3) have "e' ''sessionId'' = Some (Val (JStr ''s-1''))"
    by simp
  ultimately show ?thesis using coh e'(1) by blast
qed

subsection \<open>C3: the identity update is a round trip\<close>

text \<open>
  C3. For a valid record map \<open>s\<close> persisted at \<open>p\<close>, with nobody holding the lock, the
  locked update with the identity mutator succeeds, and a load of \<open>p\<close> afterwards (with
  or without the cache) returns \<open>s\<close>.
\<close>

theorem store_round_trip:
  assumes persisted: "files w p = Some \<lparr>content = Parsed_object s, mtimeMs = m\<rparr>"
      and valid: "valid_store s"
      and free: "files w (lock_path p) = None"
  shows "\<exists>w1. updateSessionStore en p (\<lambda>_ st. Inr ((), st)) w = (Inr (), w1) \<and>
              fst (loadSessionStore en p skip w1) = s"
proof -
  let ?w0 = "writeFile (lock_path p) (lock_meta en (clock w)) w"
  let ?w1 = "unlink (lock_path p) (saveSessionStoreUnlocked en p s ?w0)"
  have rd: "read_store_file w p = s"
    using persisted by (simp add: read_store_file_def)
  have upd: "updateSessionStore en p (\<lambda>_ st. Inr ((), st)) w = (Inr (), ?w1)"
    using free by (simp add: update_lock_free rd migrate_store_valid[OF valid])
  have f1: "files ?w1 p = Some \<lparr>content = Parsed_object s, mtimeMs = clock w\<rparr>"
    using lock_path_neq[of p] tmp_path_neq[of en p]
    by (simp add: unlink_def save_files stringify_valid[OF valid] writeFile_def)
  have c1: "cache ?w1 p = None"
    by (simp add: unlink_def save_cache)
  have "cache_coherent ?w1 p"
    using c1 by (simp add: cache_coherent_def)
  then have "fst (loadSessionStore en p skip ?w1) = migrate_store (read_store_file ?w1 p)"
    by (rule load_coherent)
  also have "\<dots> = s"
    using f1 by (simp add: read_store_file_def migrate_store_valid[OF valid])
  finally show ?thesis using upd by blast
qed

theorem store_round_trip_witness:
  "files valid_world ''sessions.json'' = Some \<lparr>content = Parsed_object demo_store, mtimeMs = 1000\<rparr> \<and>
   valid_store demo_store \<and>
   files valid_world (lock_path ''sessions.json'') = None \<and>
   (\<exists>w1. updateSessionStore demo_env ''sessions.json'' (\<lambda>_ st. Inr ((), st)) valid_world = (Inr (), w1) \<and>
         fst (loadSessionStore demo_env ''sessions.json'' False w1) = demo_store)"
proof -
  have h1: "files valid_world ''sessions.json''
              = Some \<lparr>content = Parsed_object demo_store, mtimeMs = 1000\<rparr>"
    by (simp add: valid_world_def)
  have "valid_entry demo_entry"
    by (simp add: valid_entry_def demo_entry_def)
  then have h2: "valid_store demo_store"
    by (auto simp: valid_store_def demo_store_def split: if_splits)
  have h3: "files valid_world (lock_path ''sessions.json'') = None"
    by (simp add: valid_world_def lock_path_def)
  show ?thesis
    using h1 h2 h3 store_round_trip[OF h1 h2 h3, of demo_env False] by blast
qed

subsection \<open>C10: a throwing mutator leaves the store and the lock as they were\<close>



section \<open>Properties of the lock\<close>





subsection \<open>C4: stale markers are evicted, a held lock times out after ten seconds\<close>




section \<open>The cache and the locked updates\<close>

lemma acquire_lock_cache:
  "acquire_lock en opts lp s (w\<lparr>cache := c\<rparr>) =
     (case acquire_lock en opts lp s w of (r, w') \<Rightarrow> (r, w'\<lparr>cache := c\<rparr>))"
proof (induction en opts lp s w rule: acquire_lock.induct)
  case (1 en opts lockPath startedAt w)
  note step = acquire_lock.simps[of en opts lockPath startedAt w]
  note step' = acquire_lock.simps[of en opts lockPath startedAt "w\<lparr>cache := c\<rparr>"]
  show ?case
  proof (cases "files w lockPath")
    case None
    then show ?thesis by (simp add: step step' writeFile_def)
  next
    case (Some st)
    show ?thesis
    proof (cases "clock w - startedAt > timeoutMs opts")
      case True
      with Some show ?thesis by (simp add: step step')
    next
      case nt: False
      show ?thesis
      proof (cases "clock w - mtimeMs st > staleMs opts")
        case True
        have "unlink lockPath (w\<lparr>cache := c\<rparr>) = (unlink lockPath w)\<lparr>cache := c\<rparr>"
          by (simp add: unlink_def)
        with Some nt True "1.IH"(1)[OF Some nt True]
        show ?thesis by (simp add: step step')
      next
        case False
        have "sleep (pollIntervalMs opts) (w\<lparr>cache := c\<rparr>)
                = (sleep (pollIntervalMs opts) w)\<lparr>cache := c\<rparr>"
          by (simp add: sleep_def)
        with Some nt False "1.IH"(2)[OF Some nt False]
        show ?thesis by (simp add: step step')
      qed
    qed
  qed
qed

lemma load_skip_cache:
  "loadSessionStore en p True (w\<lparr>cache := c\<rparr>) = (fst (loadSessionStore en p True w), w\<lparr>cache := c\<rparr>)"
  by (simp add: load_skip read_store_file_def)

lemma updateSessionStore_ignores_cache:
  "fst (updateSessionStore en p m (w\<lparr>cache := c\<rparr>)) = fst (updateSessionStore en p m w) \<and>
   files (snd (updateSessionStore en p m (w\<lparr>cache := c\<rparr>))) = files (snd (updateSessionStore en p m w))"
proof (cases "acquire_lock en default_lock_opts (lock_path p) (clock w) w")
  case (Pair a w1)
  have rd: "read_store_file (w1\<lparr>cache := c\<rparr>) p = read_store_file w1 p"
    by (simp add: read_store_file_def)
  have sv: "files (saveSessionStoreUnlocked en p st (w1\<lparr>cache := c\<rparr>))
             = files (saveSessionStoreUnlocked en p st w1)" for st
    by (simp add: save_files)
  show ?thesis
    using Pair
    by (cases a)
       (auto simp: updateSessionStore_def withSessionStoreLock_def acquire_lock_cache load_skip rd
          unlink_def sv split: sum.splits prod.splits)
qed

subsection \<open>C1: only updateSessionStore re-reads the file past the cache\<close>

text \<open>
  C1 asks that every locked mutation re-read the store file, bypassing the cache, after
  the lock is taken. \<open>updateSessionStore\<close> does (lemma \<open>updateSessionStore_ignores_cache\<close>).
  \<open>updateSessionStoreEntry\<close> and \<open>updateLastRoute\<close> read through the cache: with a cache
  entry that is behind the file they patch the cached record and write it back, and the
  \<^verbatim>\<open>thinkingLevel\<close> another process had written is lost. \<open>updateSessionStore\<close> on the
  same world keeps it.
\<close>

theorem entry_updates_read_cache:
  "(\<exists>e0. read_store_file stale_cache_world ''sessions.json'' ''agent:main:main'' = Some (Entry e0) \<and>
         e0 ''thinkingLevel'' = Some (Val (JStr ''high''))) \<and>
   (case updateSessionStoreEntry demo_env spread_merge ''sessions.json'' ''agent:main:main''
           (\<lambda>existing. Inr (Some model_patch)) stale_cache_world of
      (r, w') \<Rightarrow>
        (\<exists>e. read_store_file w' ''sessions.json'' ''agent:main:main'' = Some (Entry e) \<and>
             e ''model'' = Some (Val (JStr ''gpt-5'')) \<and> e ''thinkingLevel'' = None)) \<and>
   (case updateLastRoute demo_env spread_merge ''sessions.json'' ''agent:main:main''
           (Some ''slack'') None None stale_cache_world of
      (r, w') \<Rightarrow>
        (\<exists>e. read_store_file w' ''sessions.json'' ''agent:main:main'' = Some (Entry e) \<and>
             e ''lastChannel'' = Some (Val (JStr ''slack'')) \<and> e ''thinkingLevel'' = None)) \<and>
   (case updateSessionStore demo_env ''sessions.json'' model_mutator stale_cache_world of
      (r, w') \<Rightarrow>
        (\<exists>e. read_store_file w' ''sessions.json'' ''agent:main:main'' = Some (Entry e) \<and>
             e ''model'' = Some (Val (JStr ''gpt-5'')) \<and>
             e ''thinkingLevel'' = Some (Val (JStr ''high''))))"
proof (intro conjI)
  show "\<exists>e0. read_store_file stale_cache_world ''sessions.json'' ''agent:main:main'' = Some (Entry e0) \<and>
         e0 ''thinkingLevel'' = Some (Val (JStr ''high''))"
    by (simp add: read_store_file_def stale_cache_world_def)
next
  have free: "files stale_cache_world (lock_path ''sessions.json'') = None"
    by (simp add: stale_cache_world_def lock_path_def)
  show "case updateSessionStoreEntry demo_env spread_merge ''sessions.json'' ''agent:main:main''
           (\<lambda>existing. Inr (Some model_patch)) stale_cache_world of
      (r, w') \<Rightarrow>
        (\<exists>e. read_store_file w' ''sessions.json'' ''agent:main:main'' = Some (Entry e) \<and>
             e ''model'' = Some (Val (JStr ''gpt-5'')) \<and> e ''thinkingLevel'' = None)"
    using free
    apply (simp add: updateSessionStoreEntry_def withSessionStoreLock_def acquire_lock.simps)
    apply (simp add: loadSessionStore_def cache_probe_def isSessionStoreCacheEnabled_def
        isSessionStoreCacheValid_def getFileMtimeMs_def writeFile_def lock_path_def
        stale_cache_world_def demo_env_def Let_def)
    apply (simp add: read_store_file_def unlink_def save_files stringify_def strip_entry_def
        spread_merge_def model_patch_def props_opt_def tmp_path_def)
    done
next
  have free: "files stale_cache_world (lock_path ''sessions.json'') = None"
    by (simp add: stale_cache_world_def lock_path_def)
  show "case updateLastRoute demo_env spread_merge ''sessions.json'' ''agent:main:main''
           (Some ''slack'') None None stale_cache_world of
      (r, w') \<Rightarrow>
        (\<exists>e. read_store_file w' ''sessions.json'' ''agent:main:main'' = Some (Entry e) \<and>
             e ''lastChannel'' = Some (Val (JStr ''slack'')) \<and> e ''thinkingLevel'' = None)"
    using free
    apply (simp add: updateLastRoute_def withSessionStoreLock_def acquire_lock.simps)
    apply (simp add: loadSessionStore_def cache_probe_def isSessionStoreCacheEnabled_def
        isSessionStoreCacheValid_def getFileMtimeMs_def writeFile_def lock_path_def
        stale_cache_world_def demo_env_def Let_def)
    apply (simp add: read_store_file_def unlink_def save_files stringify_def strip_entry_def
        spread_merge_def props_opt_def tmp_path_def trimmed_or_def field_def)
    done
next
  have free: "files stale_cache_world (lock_path ''sessions.json'') = None"
    by (simp add: stale_cache_world_def lock_path_def)
  show "case updateSessionStore demo_env ''sessions.json'' model_mutator stale_cache_world of
      (r, w') \<Rightarrow>
        (\<exists>e. read_store_file w' ''sessions.json'' ''agent:main:main'' = Some (Entry e) \<and>
             e ''model'' = Some (Val (JStr ''gpt-5'')) \<and>
             e ''thinkingLevel'' = Some (Val (JStr ''high'')))"
    apply (simp add: update_lock_free[OF free] Let_def model_mutator_def)
    apply (simp add: read_store_file_def unlink_def save_files stringify_def strip_entry_def
        spread_merge_def model_patch_def props_opt_def tmp_path_def lock_path_def writeFile_def
        stale_cache_world_def migrate_store_def migrate_entry_def rename_legacy_def field_def)
    done
qed

section \<open>Properties of sessions.delete\<close>






subsection \<open>C8: the main session cannot be deleted\<close>


lemma request_key_main: "request_key (Some ''agent:main:main'') = ''agent:main:main''"
  by (simp add: request_key_def trim_def trimStart_def trimEnd_def is_space_def)




section \<open>Properties of the session lifecycle\<close>

lemma override_fields_iff:
  "k \<in> set override_fields \<longleftrightarrow>
     k = ''modelOverride'' \<or> k = ''providerOverride'' \<or> k = ''thinkingLevel'' \<or>
     k = ''verboseLevel'' \<or> k = ''reasoningLevel''"
  unfolding override_fields_def by (simp only: list.set insert_iff empty_iff simp_thms)

lemma new_decision_persisted:
  assumes "d_isNewSession (decide_session isNew fresh entry u)"
  shows "d_persisted (decide_session isNew fresh entry u)
           = (\<lambda>k. if k \<in> set persisted_fields then Some Undefined else None)"
  using assms by (cases isNew; cases fresh) (simp_all add: decide_session_def)

lemma build_new_override:
  assumes "k \<in> set override_fields" and "d_isNewSession (decide_session isNew fresh entry u)"
  shows "build_session_entry Map.empty (decide_session isNew fresh entry u) now df a b c d k = Some Undefined"
  using assms(1) unfolding override_fields_iff
  by (elim disjE)
     (simp_all add: build_session_entry_def new_decision_persisted[OF assms(2)] nullish_def field_def
        persisted_fields_def)

lemma label_override:
  assumes "k \<in> set override_fields" and "patch_leaves c k"
  shows "label_session_entry c e k = e k"
proof -
  have "case deriveSessionMetaPatch c e of None \<Rightarrow> True | Some mp \<Rightarrow> mp k = None"
    using assms(2) by (simp add: patch_leaves_def)
  moreover have "k \<noteq> ''chatType'' \<and> k \<noteq> ''displayName''"
    using assms(1) unfolding override_fields_iff by (elim disjE) simp_all
  ultimately show ?thesis
    by (simp add: label_session_entry_def Let_def spread_def map_add_def
          split: option.splits)
qed

lemma complete_override:
  assumes "k \<in> set override_fields"
  shows "complete_session_entry c isNew linked e k = e k"
proof -
  have "k \<noteq> ''sessionId'' \<and> k \<noteq> ''sessionFile'' \<and> k \<noteq> ''compactionCount'' \<and>
        k \<noteq> ''memoryFlushCompactionCount'' \<and> k \<noteq> ''memoryFlushAt''"
    using assms unfolding override_fields_iff by (elim disjE) simp_all
  then show ?thesis
    by (simp add: complete_session_entry_def Let_def split: option.splits prod.splits)
qed

lemma strip_spread_undefined:
  "se k = Some Undefined \<Longrightarrow> strip_entry (spread old se) k = None"
  by (simp add: strip_entry_def spread_def map_add_def)

lemma load_files: "files (snd (loadSessionStore en p skip w)) = files w"
  by (auto simp: loadSessionStore_def cache_probe_def invalidateSessionStoreCache_def Let_def
      split: sum.splits option.splits)

lemma load_clock: "clock (snd (loadSessionStore en p skip w)) = clock w"
  by (auto simp: loadSessionStore_def cache_probe_def invalidateSessionStoreCache_def Let_def
      split: sum.splits option.splits)

lemma read_after_update:
  "read_store_file (unlink (lock_path p) (saveSessionStoreUnlocked en p s
               (writeFile (lock_path p) c w))) p = stringify s"
  using lock_path_neq[of p] tmp_path_neq[of en p]
  by (simp add: read_store_file_def unlink_def save_files)


text \<open>
  Whenever \<open>initSessionState\<close> starts a new session (a reset trigger, or a record that
  is not fresh), the record it persists has none of the override fields, whatever the
  stored record held: the new record carries each of them as \<^verbatim>\<open>undefined\<close>, the
  spread copies that over the stored value, and the serialisation drops it.
\<close>

lemma initSessionState_new_session_drops_overrides:
  assumes free: "files w (lock_path (storePath c)) = None"
      and k: "k \<in> set override_fields"
      and patch: "patch_leaves c k"
      and run: "initSessionState en c w = (r, w')"
  shows "\<exists>res. r = Inr res \<and>
           (r_isNewSession res \<longrightarrow>
              (\<exists>e. read_store_file w' (storePath c) (sessionKey c) = Some (Entry e) \<and> e k = None))"
proof -
  obtain sessionStore w1 where ld: "loadSessionStore en (storePath c) False w = (sessionStore, w1)"
    by (cases "loadSessionStore en (storePath c) False w")
  have free1: "files w1 (lock_path (storePath c)) = None"
    using load_files[of en "storePath c" False w] ld free by simp
  let ?entry = "sessionStore (sessionKey c)"
  let ?trig = "reset_scan (resetAuthorized c) (trim (commandSource c)) (strippedForReset c) (resetTriggers c)"
  let ?fresh = "(case ?entry of None \<Rightarrow> False
                 | Some e \<Rightarrow> truthy_slot e \<and> evaluateSessionFreshness c (field (props e) ''updatedAt'') (clock w1))"
  let ?d = "decide_session (?trig \<noteq> None) ?fresh ?entry (uuid c)"
  let ?base = "if d_isNewSession ?d then Map.empty else props_opt ?entry"
  let ?lc = "or_js (originatingChannel c) (field ?base ''lastChannel'')"
  let ?lt = "or_js (originatingTo c) (or_js (ctxTo c) (field ?base ''lastTo''))"
  let ?la = "or_js (accountId c) (field ?base ''lastAccountId'')"
  let ?lth = "or_js (messageThreadId c) (field ?base ''lastThreadId'')"
  let ?df = "normalizeSessionDeliveryFields c ?lc ?lt ?la ?lth"
  let ?built = "build_session_entry ?base ?d (clock w1) ?df ?lc ?lt ?la ?lth"
  let ?lab = "label_session_entry c ?built"
  let ?linked = "link_parent c sessionStore (d_isNewSession ?d) ?lab"
  let ?se = "complete_session_entry c (d_isNewSession ?d) ?linked ?lab"
  let ?st = "migrate_store (read_store_file w1 (storePath c))"
  let ?w0 = "writeFile (lock_path (storePath c)) (lock_meta en (clock w1)) w1"
  let ?w2 = "unlink (lock_path (storePath c))
               (saveSessionStoreUnlocked en (storePath c)
                  (?st(sessionKey c \<mapsto> Entry (spread (props_opt (?st (sessionKey c))) ?se))) ?w0)"
  have upd: "updateSessionStore en (storePath c) (merge_mutator (sessionKey c) ?se) w1 = (Inr (), ?w2)"
    by (simp add: update_lock_free[OF free1] merge_mutator_def Let_def)
  have r: "\<exists>res. r = Inr res \<and> r_isNewSession res = d_isNewSession ?d" and w': "w' = ?w2"
    using run unfolding initSessionState_def ld Let_def prod.case upd by auto
  have pers: "read_store_file ?w2 (storePath c) (sessionKey c)
                = Some (Entry (strip_entry (spread (props_opt (?st (sessionKey c))) ?se)))"
    by (simp add: read_after_update stringify_def)
  have "?se k = Some Undefined" if "d_isNewSession ?d"
    using that build_new_override[OF k, of "?trig \<noteq> None" ?fresh ?entry "uuid c"]
    by (simp add: complete_override[OF k] label_override[OF k patch])
  then have "strip_entry (spread (props_opt (?st (sessionKey c))) ?se) k = None" if "d_isNewSession ?d"
    using that by (simp add: strip_spread_undefined)
  with r pers show ?thesis
    unfolding w' by auto
qed

lemma reset_scan_new:
  "reset_scan True (trim ''/new'') ''/new'' [''/new'', ''/reset''] = Some []"
  by (simp add: trim_def trimStart_def trimEnd_def is_space_def toLowerCase_def lower_char_def)

lemma load_override_world:
  "loadSessionStore demo_env ''sessions.json'' False override_world =
              (Map.empty(''agent:main:main'' \<mapsto> Entry override_entry),
               override_world\<lparr>cache := Map.empty(''sessions.json'' \<mapsto>
                  \<lparr>cstore = Map.empty(''agent:main:main'' \<mapsto> Entry override_entry),
                   loadedAt = 2000, cmtimeMs = Some 1000\<rparr>)\<rparr>)"
proof -
  have "migrate_entry override_entry = override_entry"
    by (simp add: migrate_entry_def rename_legacy_def field_def override_entry_def)
  then have "migrate_store (Map.empty(''agent:main:main'' \<mapsto> Entry override_entry))
               = Map.empty(''agent:main:main'' \<mapsto> Entry override_entry)"
    by (simp add: migrate_store_def fun_eq_iff)
  then show ?thesis
    by (simp add: loadSessionStore_def cache_probe_def override_world_def demo_env_def
          isSessionStoreCacheEnabled_def read_store_file_def getFileMtimeMs_def Let_def)
qed

subsection \<open>C2: a reset drops the persisted overrides\<close>

text \<open>
  C2 asks that a reset mint a new session id, clear the flags and reset the compaction
  counter while the persisted overrides keep their values. On a session that holds
  \<^verbatim>\<open>modelOverride = "foo/bar"\<close> and \<^verbatim>\<open>thinkingLevel = "high"\<close>, the reset trigger
  \<^verbatim>\<open>/new\<close> from an authorised sender does the first three, but the record persisted by
  \<open>initSessionState\<close> has neither override; and \<^verbatim>\<open>sessions.reset\<close> keeps
  \<^verbatim>\<open>thinkingLevel\<close> but not \<^verbatim>\<open>modelOverride\<close>.
\<close>

theorem reset_drops_overrides:
  "(case initSessionState demo_env reset_ctx override_world of
      (r, w') \<Rightarrow>
        (\<exists>res e. r = Inr res \<and> r_isNewSession res \<and> r_resetTriggered res \<and>
                 r_sessionId res = Val (JStr ''s-new'') \<and>
                 r_sessionEntry res ''modelOverride'' = Some Undefined \<and>
                 read_store_file w' ''sessions.json'' ''agent:main:main'' = Some (Entry e) \<and>
                 e ''sessionId'' = Some (Val (JStr ''s-new'')) \<and>
                 e ''systemSent'' = Some (Val (JBool False)) \<and>
                 e ''compactionCount'' = Some (Val (JNum 0)) \<and>
                 e ''modelOverride'' = None \<and> e ''thinkingLevel'' = None)) \<and>
   (case sessions_reset demo_env main_gateway (Some ''agent:main:main'') override_world of
      (r, w') \<Rightarrow>
        (\<exists>e. read_store_file w' ''sessions.json'' ''agent:main:main'' = Some (Entry e) \<and>
             e ''sessionId'' = Some (Val (JStr ''s-3'')) \<and>
             e ''systemSent'' = Some (Val (JBool False)) \<and>
             e ''compactionCount'' = None \<and>
             e ''thinkingLevel'' = Some (Val (JStr ''high'')) \<and>
             e ''modelOverride'' = None))"
proof (rule conjI)
  let ?w1 = "override_world\<lparr>cache := Map.empty(''sessions.json'' \<mapsto>
                  \<lparr>cstore = Map.empty(''agent:main:main'' \<mapsto> Entry override_entry),
                   loadedAt = 2000, cmtimeMs = Some 1000\<rparr>)\<rparr>"
  have free: "files ?w1 (lock_path ''sessions.json'') = None"
    by (simp add: override_world_def lock_path_def)
  have sp: "storePath reset_ctx = ''sessions.json''" "sessionKey reset_ctx = ''agent:main:main''"
    by (simp_all add: reset_ctx_def)
  have trig: "reset_scan (resetAuthorized reset_ctx) (trim (commandSource reset_ctx))
                (strippedForReset reset_ctx) (resetTriggers reset_ctx) = Some []"
    using reset_scan_new by (simp add: reset_ctx_def)
  show "case initSessionState demo_env reset_ctx override_world of
      (r, w') \<Rightarrow>
        (\<exists>res e. r = Inr res \<and> r_isNewSession res \<and> r_resetTriggered res \<and>
                 r_sessionId res = Val (JStr ''s-new'') \<and>
                 r_sessionEntry res ''modelOverride'' = Some Undefined \<and>
                 read_store_file w' ''sessions.json'' ''agent:main:main'' = Some (Entry e) \<and>
                 e ''sessionId'' = Some (Val (JStr ''s-new'')) \<and>
                 e ''systemSent'' = Some (Val (JBool False)) \<and>
                 e ''compactionCount'' = Some (Val (JNum 0)) \<and>
                 e ''modelOverride'' = None \<and> e ''thinkingLevel'' = None)"
    unfolding initSessionState_def sp load_override_world prod.case Let_def trig
      update_lock_free[OF free] merge_mutator_def
    apply (simp add: read_after_update stringify_def)
    apply (simp add: decide_session_def complete_session_entry_def link_parent_def
        label_session_entry_def build_session_entry_def reset_ctx_def nullish_def field_def
        persisted_fields_def strip_entry_def spread_def map_add_def Let_def)
    done
next
  have free: "files override_world (lock_path ''sessions.json'') = None"
    by (simp add: override_world_def lock_path_def)
  have g: "paramsValid main_gateway" "targetStorePath main_gateway = ''sessions.json''"
      "targetStoreKeys main_gateway = [''agent:main:main'']" "randomUUID main_gateway = ''s-3''"
    by (simp_all add: main_gateway_def idle_gateway_def)
  have st: "read_store_file override_world ''sessions.json''
              = Map.empty(''agent:main:main'' \<mapsto> Entry override_entry)"
    by (simp add: read_store_file_def override_world_def)
  have mg: "migrate_entry override_entry = override_entry"
    by (simp add: migrate_entry_def rename_legacy_def field_def override_entry_def)
  have ms: "migrate_store (Map.empty(''agent:main:main'' \<mapsto> Entry override_entry))
              = Map.empty(''agent:main:main'' \<mapsto> Entry override_entry)"
    using mg by (simp add: migrate_store_def fun_eq_iff)
  show "case sessions_reset demo_env main_gateway (Some ''agent:main:main'') override_world of
      (r, w') \<Rightarrow>
        (\<exists>e. read_store_file w' ''sessions.json'' ''agent:main:main'' = Some (Entry e) \<and>
             e ''sessionId'' = Some (Val (JStr ''s-3'')) \<and>
             e ''systemSent'' = Some (Val (JBool False)) \<and>
             e ''compactionCount'' = None \<and>
             e ''thinkingLevel'' = Some (Val (JStr ''high'')) \<and>
             e ''modelOverride'' = None)"
    unfolding sessions_reset_def g request_key_main Let_def update_lock_free[OF free] st ms
      reset_mutator_def
    apply (simp add: g read_after_update stringify_def)
    apply (simp add: adopt_existing_key_def primary_key_def present_def Let_def reset_entry_def
        reset_kept_fields_def strip_entry_def field_def props_opt_def override_entry_def)
    done
qed

subsection \<open>C5: the freshness boundary\<close>



section \<open>Fuzzy model resolution\<close>










text \<open>
  With the alias \<^verbatim>\<open>minimal\<close> for \<^verbatim>\<open>openai/gpt-5\<close> both models are candidates and the
  ranking of \<^verbatim>\<open>scoreFuzzyMatch\<close> decides; the outcome is the same.
\<close>

lemma score_gpt5_mini:
  "fs_score (scoreFuzzyMatch lower_deps minimal_alias ''openai'' ''gpt-5-mini'' ''mini'' ''openai'' ''gpt-5'') = 230"
  by code_simp

lemma score_gpt5:
  "fs_score (scoreFuzzyMatch lower_deps minimal_alias ''openai'' ''gpt-5'' ''mini'' ''openai'' ''gpt-5'') = 90"
  by code_simp

lemma resolve_mini_scored:
  "resolveModelDirectiveSelection lower_deps minimal_alias mini_allow_list ''openai'' ''gpt-5'' ''mini''
     = Selected \<lparr>sel_provider = ''openai'', sel_model = ''gpt-5-mini'', sel_isDefault = False,
                 sel_alias = None\<rparr>"
  by code_simp

section \<open>An unsupported thinking level\<close>

subsection \<open>The acknowledgement contains each of its parts\<close>

lemma startsWith_append: "startsWith (ys @ zs) ys"
  by (induction ys) simp_all

lemma str_includes_prefix: "str_includes (ys @ zs) ys"
proof (cases "ys @ zs")
  case Nil
  then show ?thesis by simp
next
  case (Cons a as)
  have "startsWith (ys @ zs) ys"
    by (rule startsWith_append)
  then show ?thesis
    unfolding Cons by simp
qed

lemma str_includes_middle: "str_includes (xs @ ys @ zs) ys"
proof (induction xs)
  case Nil
  show ?case by (simp add: str_includes_prefix)
next
  case (Cons a xs)
  then show ?case by simp
qed

lemma join_with_member:
  "x \<in> set xs \<Longrightarrow> \<exists>pre post. join_with sep xs = pre @ x @ post"
proof (induction sep xs rule: join_with.induct)
  case (1 sep)
  then show ?case by simp
next
  case (2 sep y)
  then have "join_with sep [y] = [] @ x @ []" by simp
  then show ?case by blast
next
  case (3 sep y z zs)
  show ?case
  proof (cases "x = y")
    case True
    then have "join_with sep (y # z # zs) = [] @ x @ (sep @ join_with sep (z # zs))" by simp
    then show ?thesis by blast
  next
    case False
    then have "x \<in> set (z # zs)" using 3 by simp
    then obtain pre post where "join_with sep (z # zs) = pre @ x @ post"
      using 3 by blast
    then have "join_with sep (y # z # zs) = (y @ sep @ pre) @ x @ post" by simp
    then show ?thesis by blast
  qed
qed

lemma dropWhile_keeps:
  assumes "ys \<noteq> []" and "\<not> P (hd ys)"
  shows "\<exists>pre'. dropWhile P (pre @ ys @ post) = pre' @ ys @ post"
proof -
  obtain y ys' where ys: "ys = y # ys'" using assms by (cases ys) auto
  have ny: "\<not> P y" using assms ys by simp
  show ?thesis
  proof (cases "\<forall>x\<in>set pre. P x")
    case True
    then have "dropWhile P (pre @ (ys @ post)) = dropWhile P (ys @ post)"
      by (intro dropWhile_append2) simp
    also have "\<dots> = [] @ ys @ post"
      using ny ys by simp
    finally show ?thesis by blast
  next
    case False
    then obtain x where "x \<in> set pre" and "\<not> P x" by blast
    then have "dropWhile P (pre @ (ys @ post)) = dropWhile P pre @ ys @ post"
      by (rule dropWhile_append1)
    then show ?thesis by blast
  qed
qed

lemma trim_keeps:
  assumes ne: "ys \<noteq> []" and h: "\<not> is_space (hd ys)" and l: "\<not> is_space (last ys)"
  shows "\<exists>pre' post'. trim (pre @ ys @ post) = pre' @ ys @ post'"
proof -
  obtain p1 where p1: "dropWhile is_space (pre @ ys @ post) = p1 @ ys @ post"
    using dropWhile_keeps[where P = is_space and ys = ys and pre = pre and post = post, OF ne h]
    by blast
  have rne: "rev ys \<noteq> []" using ne by simp
  have rh: "\<not> is_space (hd (rev ys))" using l ne by (simp add: hd_rev)
  obtain p2 where p2: "dropWhile is_space (rev post @ rev ys @ rev p1) = p2 @ rev ys @ rev p1"
    using dropWhile_keeps[where P = is_space and ys = "rev ys" and pre = "rev post"
                            and post = "rev p1", OF rne rh]
    by blast
  have "trim (pre @ ys @ post) = p1 @ ys @ rev p2"
    by (simp add: trim_def trimStart_def trimEnd_def p1 p2)
  then show ?thesis by blast
qed

lemma ack_includes:
  assumes "x \<in> set parts" and "x \<noteq> []" and "\<not> is_space (hd x)" and "\<not> is_space (last x)"
  shows "str_includes (trim (join_with sep parts)) x \<and> trim (join_with sep parts) \<noteq> []"
proof -
  obtain pre post where j: "join_with sep parts = pre @ x @ post"
    using join_with_member[OF assms(1)] by blast
  obtain pre' post' where t: "trim (pre @ x @ post) = pre' @ x @ post'"
    using trim_keeps[where ys = x and pre = pre and post = post, OF assms(2,3,4)] by blast
  show ?thesis
    unfolding j t using assms(2) by (simp add: str_includes_middle)
qed

lemma downgrade_note_shape:
  "downgrade_note c \<noteq> [] \<and> \<not> is_space (hd (downgrade_note c)) \<and> \<not> is_space (last (downgrade_note c))"
  by (simp add: downgrade_note_def is_space_def)

lemma downgrade_note_part: "downgrade_note c \<in> set (ack_parts deps c True)"
  by (simp add: ack_parts_def Let_def)

lemma directive_ack_downgrade:
  "\<exists>text. directive_ack deps c True = Some text \<and> str_includes text (downgrade_note c)"
proof -
  note s = downgrade_note_shape[of c]
  have "str_includes (trim (join_with '' '' (ack_parts deps c True))) (downgrade_note c)
        \<and> trim (join_with '' '' (ack_parts deps c True)) \<noteq> []"
    by (rule ack_includes[OF downgrade_note_part]) (use s in simp_all)
  then show ?thesis
    by (simp add: directive_ack_def Let_def)
qed

lemma persist_record:
  assumes free: "files w (lock_path f) = None"
  shows "\<exists>w'. updateSessionStore en f (\<lambda>now s. Inr ((), s(k \<mapsto> Entry e))) w = (Inr (), w')
              \<and> read_store_file w' f k = Some (Entry (strip_entry e))"
  by (simp add: update_lock_free[OF free] Let_def read_after_update stringify_def)

lemma persisted_level_high:
  assumes "read_store_file w f k = Some (Entry (strip_entry e))"
      and "e ''thinkingLevel'' = Some (Val (JStr ''high''))"
  shows "persisted_level w f k = Some (Val (JStr ''high''))"
  using assms by (simp add: persisted_level_def strip_entry_def)

lemma set_level_other: "name \<noteq> k \<Longrightarrow> set_level name has level e k = e k"
  by (simp add: set_level_def)

lemma set_opt_other: "name \<noteq> k \<Longrightarrow> set_opt name v e k = e k"
  by (simp add: set_opt_def split: option.splits)

lemma apply_model_selection_level: "apply_model_selection c e ''thinkingLevel'' = e ''thinkingLevel''"
  by (simp add: apply_model_selection_def Let_def split: option.splits)

lemma apply_queue_level: "apply_queue d e ''thinkingLevel'' = e ''thinkingLevel''"
  by (simp add: apply_queue_def set_opt_other)

lemma apply_directives_downgrade:
  assumes "keeps_thinking_level deps"
  shows "apply_directives deps c True now e ''thinkingLevel'' = Some (Val (JStr ''high''))"
  using assms
  by (simp add: apply_directives_def Let_def apply_queue_level apply_model_selection_level
        set_level_other keeps_thinking_level_def)

subsection \<open>The branches of the two functions\<close>

lemma runPreparedReply_explicit:
  assumes lv: "resolve_think_level deps p m rtl body rd td = (''xhigh'', body')"
      and un: "\<not> supportsXHighThinking deps p m"
      and ex: "explicitThink dirs"
  shows "runPreparedReply en deps dirs p m rtl body rd td se ss k f w =
           (Inr (Reply (''Thinking level \"xhigh\" is only supported for ''
                          @ formatXHighModelHint deps
                          @ ''. Use /think high or switch to one of those models.''), se, ss), w)"
  using un ex by (simp add: runPreparedReply_def lv)

lemma runPreparedReply_default:
  assumes lv: "resolve_think_level deps p m rtl body rd td = (''xhigh'', body')"
      and un: "\<not> supportsXHighThinking deps p m"
      and ex: "\<not> explicitThink dirs"
      and ns: "\<forall>e. se = Some e \<longrightarrow> \<not> stored_xhigh e"
  shows "runPreparedReply en deps dirs p m rtl body rd td se ss k f w =
           (Inr (RunReplyAgent body' ''high'', se, ss), w)"
  using un ex ns
  by (simp add: runPreparedReply_def lv stored_xhigh_def split: option.splits)

lemma runPreparedReply_stored:
  assumes lv: "resolve_think_level deps p m rtl body rd td = (''xhigh'', body')"
      and un: "\<not> supportsXHighThinking deps p m"
      and ex: "\<not> explicitThink dirs"
      and st: "stored_xhigh e" and k: "k \<noteq> []" and f: "f \<noteq> []"
      and free: "files w (lock_path f) = None"
  shows "\<exists>e' st' w'. runPreparedReply en deps dirs p m rtl body rd td (Some e) (Some s) k (Some f) w =
           (Inr (RunReplyAgent body' ''high'', Some e', Some st'), w')
         \<and> persisted_level w' f k = Some (Val (JStr ''high''))"
proof -
  define e' where "e' = e(''thinkingLevel'' \<mapsto> Val (JStr ''high''), ''updatedAt'' \<mapsto> Val (JNum (clock w)))"
  obtain w' where u: "updateSessionStore en f (\<lambda>now s. Inr ((), s(k \<mapsto> Entry e'))) w = (Inr (), w')"
    and r: "read_store_file w' f k = Some (Entry (strip_entry e'))"
    using persist_record[OF free, of en k e'] by blast
  have lvl: "e' ''thinkingLevel'' = Some (Val (JStr ''high''))"
    by (simp add: e'_def)
  have "runPreparedReply en deps dirs p m rtl body rd td (Some e) (Some s) k (Some f) w =
          (Inr (RunReplyAgent body' ''high'', Some e', Some (s(k \<mapsto> Entry e'))), w')"
    using un ex st k f u
    by (simp add: runPreparedReply_def lv stored_xhigh_def Let_def truthy_str_def or_default_def
          e'_def[symmetric])
  then show ?thesis
    using persisted_level_high[OF r lvl] by blast
qed

lemma handleDirectiveOnly_explicit:
  assumes "early_reply deps c = None"
      and "\<not> supportsXHighThinking deps (resolvedProvider c) (resolvedModel c)"
      and "hasThinkDirective (directives c)" and "thinkLevel (directives c) = Some ''xhigh''"
  shows "handleDirectiveOnly en deps c se ss k f w =
           (Inr (Some (''Thinking level \"xhigh\" is only supported for ''
                         @ formatXHighModelHint deps @ ''.''), se, ss), w)"
  using assms by (simp add: handleDirectiveOnly_def)

lemma handleDirectiveOnly_downgrade:
  assumes er: "early_reply deps c = None"
      and un: "\<not> supportsXHighThinking deps (resolvedProvider c) (resolvedModel c)"
      and nt: "\<not> hasThinkDirective (directives c)"
      and nx: "nextThinkLevel c (Some e) = Val (JStr ''xhigh'')"
      and kp: "keeps_thinking_level deps"
      and k: "k \<noteq> []" and f: "f \<noteq> []"
      and free: "files w (lock_path f) = None"
  shows "\<exists>text e' st' w'. handleDirectiveOnly en deps c (Some e) (Some s) k (Some f) w =
           (Inr (Some text, Some e', Some st'), w')
         \<and> str_includes text (downgrade_note c)
         \<and> persisted_level w' f k = Some (Val (JStr ''high''))"
proof -
  have dg: "shouldDowngradeXHigh deps c (Some e)"
    using un nt nx by (simp add: shouldDowngradeXHigh_def)
  define e' where "e' = apply_directives deps c True (clock w) e"
  obtain w' where u: "updateSessionStore en f (\<lambda>now s. Inr ((), s(k \<mapsto> Entry e'))) w = (Inr (), w')"
    and r: "read_store_file w' f k = Some (Entry (strip_entry e'))"
    using persist_record[OF free, of en k e'] by blast
  have lvl: "e' ''thinkingLevel'' = Some (Val (JStr ''high''))"
    unfolding e'_def by (rule apply_directives_downgrade[OF kp])
  obtain ack where t: "directive_ack deps c True = Some ack"
    and inc: "str_includes ack (downgrade_note c)"
    using directive_ack_downgrade[of deps c] by blast
  have "handleDirectiveOnly en deps c (Some e) (Some s) k (Some f) w =
          (Inr (Some ack, Some e', Some (s(k \<mapsto> Entry e'))), w')"
    using nt k f u
    by (simp add: handleDirectiveOnly_def er dg t Let_def truthy_str_def or_default_def
          e'_def[symmetric])
  then show ?thesis
    using inc persisted_level_high[OF r lvl] by blast
qed

subsection \<open>A session on a model without \<^verbatim>\<open>xhigh\<close>\<close>

lemma split_hello: "split_ws ''hello'' = [''hello'']"
  by (simp add: split_ws.simps is_space_def)

lemma level_from_session:
  "resolve_think_level plain_deps ''anthropic'' ''claude-opus-4-5'' (Some ''xhigh'') ''hello'' None None
     = (''xhigh'', ''hello'')"
  by (simp add: resolve_think_level_def truthy_str_def or_default_def)

lemma level_from_default:
  "resolve_think_level plain_deps ''anthropic'' ''claude-opus-4-5'' None ''hello'' (Some ''xhigh'') None
     = (''xhigh'', ''hello'')"
  by (simp add: resolve_think_level_def truthy_str_def split_hello plain_deps_def Let_def
        resolveDefaultThinkingLevel_def)

lemma unsupported_claude: "\<not> supportsXHighThinking plain_deps ''anthropic'' ''claude-opus-4-5''"
  by (simp add: plain_deps_def)

lemma early_reply_none: "early_reply plain_deps (claude_call no_directives) = None"
  by (simp add: early_reply_def level_query_def claude_call_def no_directives_def Let_def truthy_str_def)

lemma early_reply_think: "early_reply plain_deps (claude_call think_xhigh) = None"
  by (simp add: early_reply_def level_query_def claude_call_def think_xhigh_def no_directives_def
        Let_def truthy_str_def)

lemma resolved_claude:
  "resolvedProvider (claude_call d) = ''anthropic'' \<and> resolvedModel (claude_call d) = ''claude-opus-4-5''"
  by (simp add: resolvedProvider_def resolvedModel_def claude_call_def)

lemma high_entry_eq:
  "xhigh_entry(''thinkingLevel'' \<mapsto> Val (JStr ''high''), ''updatedAt'' \<mapsto> Val (JNum 2000)) = high_entry"
  by (auto simp add: xhigh_entry_def high_entry_def fun_eq_iff)

subsection \<open>C6: \<^verbatim>\<open>xhigh\<close> on a model that does not support it\<close>

text \<open>
  C6, as the code has it. The thinking level is \<^verbatim>\<open>xhigh\<close> and the model does not
  support it.

  \<^item> \<^verbatim>\<open>runPreparedReply\<close>: a message with a thinking directive that carries a level is
    answered with an error text, and the session record, the store object and the
    files stay as they are. Otherwise the agent is run at level \<^verbatim>\<open>high\<close> on the
    command body, and this is all the function returns: it adds no text about the
    change. When the session record does not itself hold \<^verbatim>\<open>xhigh\<close> (the level is the
    default of the model), nothing is written; when it does, and the store lock is
    free, the store file afterwards holds \<^verbatim>\<open>high\<close> for the session.
  \<^item> \<^verbatim>\<open>handleDirectiveOnly\<close>, once none of the earlier replies applies: the directive
    \<^verbatim>\<open>xhigh\<close> is answered with an error text and nothing changes. Without a thinking
    directive, when the level of the record (else the current level) is \<^verbatim>\<open>xhigh\<close>,
    the reply contains the sentence that the level was set to \<^verbatim>\<open>high\<close>, and with the
    store lock free the store file afterwards holds \<^verbatim>\<open>high\<close> for the session.
\<close>

theorem xhigh_unsupported_contract:
  "(resolve_think_level deps p m rtl body rd td = (''xhigh'', body')
      \<and> \<not> supportsXHighThinking deps p m \<and> explicitThink dirs \<longrightarrow>
      runPreparedReply en deps dirs p m rtl body rd td se ss k f w =
        (Inr (Reply (''Thinking level \"xhigh\" is only supported for ''
                       @ formatXHighModelHint deps
                       @ ''. Use /think high or switch to one of those models.''), se, ss), w))
   \<and>
   (resolve_think_level deps p m rtl body rd td = (''xhigh'', body')
      \<and> \<not> supportsXHighThinking deps p m \<and> \<not> explicitThink dirs
      \<and> (\<forall>e. se = Some e \<longrightarrow> \<not> stored_xhigh e) \<longrightarrow>
      runPreparedReply en deps dirs p m rtl body rd td se ss k f w =
        (Inr (RunReplyAgent body' ''high'', se, ss), w))
   \<and>
   (resolve_think_level deps p m rtl body rd td = (''xhigh'', body')
      \<and> \<not> supportsXHighThinking deps p m \<and> \<not> explicitThink dirs
      \<and> stored_xhigh ent \<and> k \<noteq> [] \<and> sp \<noteq> [] \<and> files w (lock_path sp) = None \<longrightarrow>
      (\<exists>e' st' w'. runPreparedReply en deps dirs p m rtl body rd td (Some ent) (Some sto) k (Some sp) w =
                      (Inr (RunReplyAgent body' ''high'', Some e', Some st'), w')
                    \<and> persisted_level w' sp k = Some (Val (JStr ''high''))))
   \<and>
   (early_reply deps c = None
      \<and> \<not> supportsXHighThinking deps (resolvedProvider c) (resolvedModel c)
      \<and> hasThinkDirective (directives c) \<and> thinkLevel (directives c) = Some ''xhigh'' \<longrightarrow>
      handleDirectiveOnly en deps c se ss k f w =
        (Inr (Some (''Thinking level \"xhigh\" is only supported for ''
                      @ formatXHighModelHint deps @ ''.''), se, ss), w))
   \<and>
   (early_reply deps c = None
      \<and> \<not> supportsXHighThinking deps (resolvedProvider c) (resolvedModel c)
      \<and> \<not> hasThinkDirective (directives c)
      \<and> nextThinkLevel c (Some ent) = Val (JStr ''xhigh'')
      \<and> keeps_thinking_level deps
      \<and> k \<noteq> [] \<and> sp \<noteq> [] \<and> files w (lock_path sp) = None \<longrightarrow>
      (\<exists>ack e' st' w'. handleDirectiveOnly en deps c (Some ent) (Some sto) k (Some sp) w =
                          (Inr (Some ack, Some e', Some st'), w')
                        \<and> str_includes ack (downgrade_note c)
                        \<and> persisted_level w' sp k = Some (Val (JStr ''high''))))"
proof (intro conjI impI)
  assume "resolve_think_level deps p m rtl body rd td = (''xhigh'', body')
      \<and> \<not> supportsXHighThinking deps p m \<and> explicitThink dirs"
  then show "runPreparedReply en deps dirs p m rtl body rd td se ss k f w =
        (Inr (Reply (''Thinking level \"xhigh\" is only supported for ''
                       @ formatXHighModelHint deps
                       @ ''. Use /think high or switch to one of those models.''), se, ss), w)"
    by (intro runPreparedReply_explicit) simp_all
next
  assume "resolve_think_level deps p m rtl body rd td = (''xhigh'', body')
      \<and> \<not> supportsXHighThinking deps p m \<and> \<not> explicitThink dirs
      \<and> (\<forall>e. se = Some e \<longrightarrow> \<not> stored_xhigh e)"
  then show "runPreparedReply en deps dirs p m rtl body rd td se ss k f w =
        (Inr (RunReplyAgent body' ''high'', se, ss), w)"
    by (intro runPreparedReply_default) simp_all
next
  assume "resolve_think_level deps p m rtl body rd td = (''xhigh'', body')
      \<and> \<not> supportsXHighThinking deps p m \<and> \<not> explicitThink dirs
      \<and> stored_xhigh ent \<and> k \<noteq> [] \<and> sp \<noteq> [] \<and> files w (lock_path sp) = None"
  then show "\<exists>e' st' w'. runPreparedReply en deps dirs p m rtl body rd td (Some ent) (Some sto) k (Some sp) w =
                      (Inr (RunReplyAgent body' ''high'', Some e', Some st'), w')
                    \<and> persisted_level w' sp k = Some (Val (JStr ''high''))"
    by (intro runPreparedReply_stored) simp_all
next
  assume "early_reply deps c = None
      \<and> \<not> supportsXHighThinking deps (resolvedProvider c) (resolvedModel c)
      \<and> hasThinkDirective (directives c) \<and> thinkLevel (directives c) = Some ''xhigh''"
  then show "handleDirectiveOnly en deps c se ss k f w =
        (Inr (Some (''Thinking level \"xhigh\" is only supported for ''
                      @ formatXHighModelHint deps @ ''.''), se, ss), w)"
    by (intro handleDirectiveOnly_explicit) simp_all
next
  assume "early_reply deps c = None
      \<and> \<not> supportsXHighThinking deps (resolvedProvider c) (resolvedModel c)
      \<and> \<not> hasThinkDirective (directives c)
      \<and> nextThinkLevel c (Some ent) = Val (JStr ''xhigh'')
      \<and> keeps_thinking_level deps
      \<and> k \<noteq> [] \<and> sp \<noteq> [] \<and> files w (lock_path sp) = None"
  then show "\<exists>ack e' st' w'. handleDirectiveOnly en deps c (Some ent) (Some sto) k (Some sp) w =
                          (Inr (Some ack, Some e', Some st'), w')
                        \<and> str_includes ack (downgrade_note c)
                        \<and> persisted_level w' sp k = Some (Val (JStr ''high''))"
    by (intro handleDirectiveOnly_downgrade) simp_all
qed

theorem xhigh_unsupported_contract_witness:
  "explicitThink think_xhigh
   \<and> runPreparedReply demo_env plain_deps think_xhigh ''anthropic'' ''claude-opus-4-5'' (Some ''xhigh'')
         ''hello'' None None (Some xhigh_entry) (Some xhigh_store) ''agent:main:main''
         (Some ''sessions.json'') xhigh_world
       = (Inr (Reply ''Thinking level \"xhigh\" is only supported for openai/gpt-5.2. Use /think high or switch to one of those models.'',
               Some xhigh_entry, Some xhigh_store), xhigh_world)
   \<and> \<not> explicitThink no_directives \<and> \<not> stored_xhigh demo_entry
   \<and> runPreparedReply demo_env plain_deps no_directives ''anthropic'' ''claude-opus-4-5'' None
         ''hello'' (Some ''xhigh'') None (Some demo_entry) (Some demo_store) ''agent:main:main''
         (Some ''sessions.json'') valid_world
       = (Inr (RunReplyAgent ''hello'' ''high'', Some demo_entry, Some demo_store), valid_world)
   \<and> stored_xhigh xhigh_entry
   \<and> (\<exists>e' st' w'.
         runPreparedReply demo_env plain_deps no_directives ''anthropic'' ''claude-opus-4-5''
           (Some ''xhigh'') ''hello'' None None (Some xhigh_entry) (Some xhigh_store)
           ''agent:main:main'' (Some ''sessions.json'') xhigh_world
         = (Inr (RunReplyAgent ''hello'' ''high'', Some e', Some st'), w')
         \<and> persisted_level w' ''sessions.json'' ''agent:main:main'' = Some (Val (JStr ''high'')))
   \<and> handleDirectiveOnly demo_env plain_deps (claude_call think_xhigh) (Some xhigh_entry)
         (Some xhigh_store) ''agent:main:main'' (Some ''sessions.json'') xhigh_world
       = (Inr (Some ''Thinking level \"xhigh\" is only supported for openai/gpt-5.2.'',
               Some xhigh_entry, Some xhigh_store), xhigh_world)
   \<and> keeps_thinking_level plain_deps
   \<and> (\<exists>ack e' st' w'.
         handleDirectiveOnly demo_env plain_deps (claude_call no_directives) (Some xhigh_entry)
           (Some xhigh_store) ''agent:main:main'' (Some ''sessions.json'') xhigh_world
         = (Inr (Some ack, Some e', Some st'), w')
         \<and> str_includes ack
              ''Thinking level set to high (xhigh not supported for anthropic/claude-opus-4-5).''
         \<and> persisted_level w' ''sessions.json'' ''agent:main:main'' = Some (Val (JStr ''high'')))"
proof -
  note un = unsupported_claude
  have ex: "explicitThink think_xhigh"
    by (simp add: explicitThink_def think_xhigh_def no_directives_def)
  have nex: "\<not> explicitThink no_directives"
    by (simp add: explicitThink_def no_directives_def)
  have nst: "\<not> stored_xhigh demo_entry"
    by (simp add: stored_xhigh_def demo_entry_def field_def)
  have st: "stored_xhigh xhigh_entry"
    by (simp add: stored_xhigh_def xhigh_entry_def field_def)
  have free: "files xhigh_world (lock_path ''sessions.json'') = None"
    by (simp add: xhigh_world_def lock_path_def)
  have kp: "keeps_thinking_level plain_deps"
    by (simp add: keeps_thinking_level_def plain_deps_def)
  have hint: "formatXHighModelHint plain_deps = ''openai/gpt-5.2''"
    by (simp add: plain_deps_def)
  have dirs_think: "hasThinkDirective (directives (claude_call think_xhigh))
                    \<and> thinkLevel (directives (claude_call think_xhigh)) = Some ''xhigh''"
    by (simp add: claude_call_def think_xhigh_def no_directives_def)
  have dirs_none: "\<not> hasThinkDirective (directives (claude_call no_directives))"
    by (simp add: claude_call_def no_directives_def)
  have nx: "nextThinkLevel (claude_call no_directives) (Some xhigh_entry) = Val (JStr ''xhigh'')"
    by (simp add: nextThinkLevel_def claude_call_def no_directives_def xhigh_entry_def field_def)
  have note_text: "downgrade_note (claude_call no_directives)
                   = ''Thinking level set to high (xhigh not supported for anthropic/claude-opus-4-5).''"
    by (simp add: downgrade_note_def resolved_claude)
  note inst = xhigh_unsupported_contract[where en = demo_env and deps = plain_deps
      and p = "''anthropic''" and m = "''claude-opus-4-5''" and body = "''hello''"
      and body' = "''hello''" and td = None and k = "''agent:main:main''"
      and sp = "''sessions.json''" and f = "Some ''sessions.json''" and ent = xhigh_entry
      and sto = xhigh_store]
  have a: "runPreparedReply demo_env plain_deps think_xhigh ''anthropic'' ''claude-opus-4-5'' (Some ''xhigh'')
         ''hello'' None None (Some xhigh_entry) (Some xhigh_store) ''agent:main:main''
         (Some ''sessions.json'') xhigh_world
       = (Inr (Reply ''Thinking level \"xhigh\" is only supported for openai/gpt-5.2. Use /think high or switch to one of those models.'',
               Some xhigh_entry, Some xhigh_store), xhigh_world)"
    using inst[where rtl = "Some ''xhigh''" and rd = None and dirs = think_xhigh
               and se = "Some xhigh_entry" and ss = "Some xhigh_store" and w = xhigh_world,
               THEN conjunct1, rule_format]
          level_from_session un ex
    by (simp add: hint)
  have b: "runPreparedReply demo_env plain_deps no_directives ''anthropic'' ''claude-opus-4-5'' None
         ''hello'' (Some ''xhigh'') None (Some demo_entry) (Some demo_store) ''agent:main:main''
         (Some ''sessions.json'') valid_world
       = (Inr (RunReplyAgent ''hello'' ''high'', Some demo_entry, Some demo_store), valid_world)"
    using inst[where rtl = None and rd = "Some ''xhigh''" and dirs = no_directives
               and se = "Some demo_entry" and ss = "Some demo_store" and w = valid_world,
               THEN conjunct2, THEN conjunct1, rule_format]
          level_from_default un nex nst
    by simp
  have c: "\<exists>e' st' w'.
         runPreparedReply demo_env plain_deps no_directives ''anthropic'' ''claude-opus-4-5''
           (Some ''xhigh'') ''hello'' None None (Some xhigh_entry) (Some xhigh_store)
           ''agent:main:main'' (Some ''sessions.json'') xhigh_world
         = (Inr (RunReplyAgent ''hello'' ''high'', Some e', Some st'), w')
         \<and> persisted_level w' ''sessions.json'' ''agent:main:main'' = Some (Val (JStr ''high''))"
    using inst[where rtl = "Some ''xhigh''" and rd = None and dirs = no_directives
               and w = xhigh_world,
               THEN conjunct2, THEN conjunct2, THEN conjunct1, rule_format]
          level_from_session un nex st free
    by simp
  have d: "handleDirectiveOnly demo_env plain_deps (claude_call think_xhigh) (Some xhigh_entry)
         (Some xhigh_store) ''agent:main:main'' (Some ''sessions.json'') xhigh_world
       = (Inr (Some ''Thinking level \"xhigh\" is only supported for openai/gpt-5.2.'',
               Some xhigh_entry, Some xhigh_store), xhigh_world)"
    using inst[where c = "claude_call think_xhigh" and se = "Some xhigh_entry"
               and ss = "Some xhigh_store" and w = xhigh_world,
               THEN conjunct2, THEN conjunct2, THEN conjunct2, THEN conjunct1, rule_format]
          early_reply_think un dirs_think
    by (simp add: hint resolved_claude)
  have e: "\<exists>ack e' st' w'.
         handleDirectiveOnly demo_env plain_deps (claude_call no_directives) (Some xhigh_entry)
           (Some xhigh_store) ''agent:main:main'' (Some ''sessions.json'') xhigh_world
         = (Inr (Some ack, Some e', Some st'), w')
         \<and> str_includes ack
              ''Thinking level set to high (xhigh not supported for anthropic/claude-opus-4-5).''
         \<and> persisted_level w' ''sessions.json'' ''agent:main:main'' = Some (Val (JStr ''high''))"
    using inst[where c = "claude_call no_directives" and w = xhigh_world,
               THEN conjunct2, THEN conjunct2, THEN conjunct2, THEN conjunct2, rule_format]
          early_reply_none un dirs_none nx kp free
    by (simp add: resolved_claude note_text)
  show ?thesis
    using ex a nex nst b st c d kp e by simp
qed

text \<open>
  The claim as the spec words it has every downgrade surfaced to the user and
  persisted. In \<^verbatim>\<open>runPreparedReply\<close> the session that holds \<^verbatim>\<open>xhigh\<close> is moved to
  \<^verbatim>\<open>high\<close> and the function passes on to the agent run with the body \<^verbatim>\<open>hello\<close>:
  it returns no text of its own. When \<^verbatim>\<open>xhigh\<close> is the default of the model, the
  run is at \<^verbatim>\<open>high\<close> as well and the store file is left without a thinking level.
\<close>

theorem silent_downgrade_counterexample:
  "fst (runPreparedReply demo_env plain_deps no_directives ''anthropic'' ''claude-opus-4-5''
          (Some ''xhigh'') ''hello'' None None (Some xhigh_entry) (Some xhigh_store)
          ''agent:main:main'' (Some ''sessions.json'') xhigh_world)
     = Inr (RunReplyAgent ''hello'' ''high'', Some high_entry,
            Some (xhigh_store(''agent:main:main'' \<mapsto> Entry high_entry)))
   \<and> runPreparedReply demo_env plain_deps no_directives ''anthropic'' ''claude-opus-4-5'' None
         ''hello'' (Some ''xhigh'') None (Some demo_entry) (Some demo_store) ''agent:main:main''
         (Some ''sessions.json'') valid_world
       = (Inr (RunReplyAgent ''hello'' ''high'', Some demo_entry, Some demo_store), valid_world)
   \<and> persisted_level valid_world ''sessions.json'' ''agent:main:main'' = None"
proof -
  have free: "files xhigh_world (lock_path ''sessions.json'') = None"
    by (simp add: xhigh_world_def lock_path_def)
  have clk: "clock xhigh_world = 2000"
    by (simp add: xhigh_world_def)
  have a: "fst (runPreparedReply demo_env plain_deps no_directives ''anthropic'' ''claude-opus-4-5''
          (Some ''xhigh'') ''hello'' None None (Some xhigh_entry) (Some xhigh_store)
          ''agent:main:main'' (Some ''sessions.json'') xhigh_world)
     = Inr (RunReplyAgent ''hello'' ''high'', Some high_entry,
            Some (xhigh_store(''agent:main:main'' \<mapsto> Entry high_entry)))"
    using unsupported_claude
    by (simp add: runPreparedReply_def level_from_session explicitThink_def no_directives_def
          xhigh_entry_def[THEN fun_cong] field_def truthy_str_def or_default_def Let_def clk
          high_entry_eq update_lock_free[OF free])
  have b: "runPreparedReply demo_env plain_deps no_directives ''anthropic'' ''claude-opus-4-5'' None
         ''hello'' (Some ''xhigh'') None (Some demo_entry) (Some demo_store) ''agent:main:main''
         (Some ''sessions.json'') valid_world
       = (Inr (RunReplyAgent ''hello'' ''high'', Some demo_entry, Some demo_store), valid_world)"
    using unsupported_claude
    by (simp add: runPreparedReply_def level_from_default explicitThink_def no_directives_def
          demo_entry_def[THEN fun_cong] field_def)
  have c: "persisted_level valid_world ''sessions.json'' ''agent:main:main'' = None"
    by (simp add: persisted_level_def read_store_file_def valid_world_def demo_store_def demo_entry_def)
  show ?thesis
    using a b c by simp
qed

end
